theory Spec2Isabelle
  imports Complex_Main "HOL-Library.Monad_Syntax"
begin

section \<open>JavaScript values\<close>

text \<open>
  The backend is JavaScript: request bodies, service answers and responses are JSON values,
  read with property access, truthiness tests and strict equality. A value is one of the
  JSON kinds, \<open>undefined\<close>, or a built-in function object (\<open>JFun\<close>, which only arises as
  an inherited method such as \<open>Array.prototype.values\<close>). Numbers are rationals: the code
  never computes with them, it passes them on and tests them for truthiness, and
  \<open>JSON.parse\<close> yields no NaN. An object is its list of own properties in insertion order.
\<close>

datatype jsval =
    JUndef
  | JNull
  | JBool bool
  | JNum rat
  | JStr string
  | JArr "jsval list"
  | JObj "(string \<times> jsval) list"
  | JFun

text \<open>Truthiness, as in \<open>if (v)\<close>, \<open>!v\<close>, \<open>v ? a : b\<close>, and \<open>v || w\<close>.\<close>

fun truthy :: "jsval \<Rightarrow> bool" where
  "truthy JUndef = False"
| "truthy JNull = False"
| "truthy (JBool b) = b"
| "truthy (JNum x) = (x \<noteq> 0)"
| "truthy (JStr s) = (s \<noteq> [])"
| "truthy (JArr xs) = True"
| "truthy (JObj kvs) = True"
| "truthy JFun = True"

definition js_or :: "jsval \<Rightarrow> jsval \<Rightarrow> jsval" where
  "js_or a b = (if truthy a then a else b)"

text \<open>
  Property access \<open>v.k\<close>. Reading a property of \<open>undefined\<close> or \<open>null\<close> throws a
  TypeError, which is the result \<open>None\<close> here and in every function below; each route
  catches it and answers with an error response. An object yields its own property or
  \<open>undefined\<close>. Of the inherited members, the model has those the code reads: \<open>length\<close> of
  arrays and strings, and \<open>values\<close> of arrays (a method, so a function object).
\<close>

definition own :: "(string \<times> jsval) list \<Rightarrow> string \<Rightarrow> jsval" where
  "own kvs k = (case map_of kvs k of Some v \<Rightarrow> v | None \<Rightarrow> JUndef)"

fun get_prop :: "jsval \<Rightarrow> string \<Rightarrow> jsval option" where
  "get_prop JUndef k = None"
| "get_prop JNull k = None"
| "get_prop (JBool b) k = Some JUndef"
| "get_prop (JNum x) k = Some JUndef"
| "get_prop (JStr s) k = Some (if k = ''length'' then JNum (of_nat (length s)) else JUndef)"
| "get_prop (JArr xs) k =
     Some (if k = ''length'' then JNum (of_nat (length xs))
           else if k = ''values'' then JFun else JUndef)"
| "get_prop (JObj kvs) k = Some (own kvs k)"
| "get_prop JFun k = Some JUndef"

text \<open>Optional chaining \<open>v?.k\<close>: \<open>undefined\<close> where \<open>v.k\<close> would throw.\<close>

definition opt_prop :: "jsval \<Rightarrow> string \<Rightarrow> jsval" where
  "opt_prop v k = (case get_prop v k of None \<Rightarrow> JUndef | Some w \<Rightarrow> w)"

definition nullish :: "jsval \<Rightarrow> bool" where
  "nullish v \<longleftrightarrow> v = JUndef \<or> v = JNull"

text \<open>
  The receiver of \<open>forEach\<close>, \<open>map\<close>, \<open>flatMap\<close> and \<open>join\<close> has to be an array: no other
  value has these methods, and calling what is not a function throws.
\<close>

fun as_array :: "jsval \<Rightarrow> jsval list option" where
  "as_array (JArr xs) = Some xs"
| "as_array _ = None"

text \<open>Likewise \<open>split\<close>, \<open>trim\<close> and \<open>substring\<close> need a string.\<close>

fun as_string :: "jsval \<Rightarrow> string option" where
  "as_string (JStr s) = Some s"
| "as_string _ = None"

fun intercalate :: "string \<Rightarrow> string list \<Rightarrow> string" where
  "intercalate sep [] = []"
| "intercalate sep [s] = s"
| "intercalate sep (s # t # ss) = s @ sep @ intercalate sep (t # ss)"

text \<open>
  String conversion, as a template literal \<open>`${v}`\<close> and \<open>join\<close> do it. The printing of a
  number is the parameter \<open>ns\<close>. An array prints its elements separated by commas, with
  \<open>null\<close> and \<open>undefined\<close> as the empty string. A plain object prints as
  \<open>[object Object]\<close>; one with an own property \<open>toString\<close> (which parsed JSON cannot make
  callable) has no primitive value and the conversion throws.
\<close>

fun to_string :: "(rat \<Rightarrow> string) \<Rightarrow> jsval \<Rightarrow> string option" where
  "to_string ns JUndef = Some ''undefined''"
| "to_string ns JNull = Some ''null''"
| "to_string ns (JBool b) = Some (if b then ''true'' else ''false'')"
| "to_string ns (JNum x) = Some (ns x)"
| "to_string ns (JStr s) = Some s"
| "to_string ns (JArr xs) =
     map_option (intercalate '','')
       (those (map (\<lambda>v. if nullish v then Some [] else to_string ns v) xs))"
| "to_string ns (JObj kvs) =
     (if ''toString'' \<in> set (map fst kvs) then None else Some ''[object Object]'')"
| "to_string ns JFun = Some ''function values() { [native code] }''"

text \<open>\<open>xs.join(sep)\<close> on any receiver.\<close>

definition js_join :: "(rat \<Rightarrow> string) \<Rightarrow> string \<Rightarrow> jsval \<Rightarrow> string option" where
  "js_join ns sep v = do {
     xs \<leftarrow> as_array v;
     ss \<leftarrow> those (map (\<lambda>x. if nullish x then Some [] else to_string ns x) xs);
     Some (intercalate sep ss)
   }"

text \<open>
  The comparison \<open>v > n\<close> against a number literal. \<open>v\<close> is converted to a number first:
  \<open>undefined\<close> is NaN (the comparison is false), \<open>null\<close> is 0, a boolean 0 or 1; a string
  is parsed, and what the comparison then gives is the parameter \<open>sgt\<close>; arrays, objects
  and functions go through their string conversion.
\<close>

fun js_gt :: "(rat \<Rightarrow> string) \<Rightarrow> (string \<Rightarrow> rat \<Rightarrow> bool) \<Rightarrow> jsval \<Rightarrow> rat \<Rightarrow> bool option" where
  "js_gt ns sgt JUndef n = Some False"
| "js_gt ns sgt JNull n = Some (0 > n)"
| "js_gt ns sgt (JBool b) n = Some ((if b then 1 else 0) > n)"
| "js_gt ns sgt (JNum x) n = Some (x > n)"
| "js_gt ns sgt (JStr s) n = Some (sgt s n)"
| "js_gt ns sgt v n = map_option (\<lambda>s. sgt s n) (to_string ns v)"

text \<open>
  The guard \<open>v && v.length > n\<close> of an \<open>if\<close>: \<open>Some True\<close> when both hold.
\<close>

definition longer_than :: "(rat \<Rightarrow> string) \<Rightarrow> (string \<Rightarrow> rat \<Rightarrow> bool) \<Rightarrow> jsval \<Rightarrow> rat \<Rightarrow> bool option" where
  "longer_than ns sgt v n =
     (if truthy v then do { l \<leftarrow> get_prop v ''length''; js_gt ns sgt l n } else Some False)"

text \<open>
  \<open>s.split(',')\<close> and \<open>s.trim()\<close>. The white space that \<open>trim\<close> removes is, among the
  characters of the model, tab, line feed, vertical tab, form feed, carriage return,
  space and no-break space.
\<close>

fun split_comma :: "string \<Rightarrow> string list" where
  "split_comma [] = [[]]"
| "split_comma (c # cs) =
     (if c = CHR '','' then [] # split_comma cs
      else (case split_comma cs of [] \<Rightarrow> [[c]] | p # ps \<Rightarrow> (c # p) # ps))"

definition white_space :: "char \<Rightarrow> bool" where
  "white_space c \<longleftrightarrow> c \<in> set [CHR 0x09, CHR 0x0A, CHR 0x0B, CHR 0x0C, CHR 0x0D, CHR 0x20, CHR 0xA0]"

definition trim :: "string \<Rightarrow> string" where
  "trim s = rev (dropWhile white_space (rev (dropWhile white_space s)))"

text \<open>
  Sample conversions for the concrete evaluations further down: whole numbers print in
  decimal, and no string counts as a number greater than another one. The examples print
  no other numbers and compare no strings.
\<close>

fun decimal :: "nat \<Rightarrow> string" where
  "decimal n =
     (if n < 10 then [char_of (48 + n)] else decimal (n div 10) @ [char_of (48 + n mod 10)])"

declare decimal.simps [simp del]

definition number_text :: "rat \<Rightarrow> string" where
  "number_text x = (if x < 0 then ''-'' else []) @ decimal (nat \<lfloor>\<bar>x\<bar>\<rfloor>)"

definition never_greater :: "string \<Rightarrow> rat \<Rightarrow> bool" where
  "never_greater s n = False"

section \<open>The global error handler (middleware/errorHandler.js)\<close>

text \<open>
  The handler reads \<open>name\<close>, \<open>code\<close>, \<open>type\<close>, \<open>message\<close>, \<open>stack\<close> and \<open>details\<close> of the
  error it is given; a property the error lacks reads as \<open>undefined\<close>.
\<close>

record js_error =
  err_name :: jsval
  err_code :: jsval
  err_type :: jsval
  err_message :: jsval
  err_stack :: jsval
  err_details :: jsval

text \<open>The local variable \<open>error\<close> of the handler; \<open>details\<close> is \<open>undefined\<close> unless set.\<close>

record error_info =
  ei_status :: nat
  ei_message :: string
  ei_details :: jsval

record response =
  status :: nat
  body :: jsval

definition mk_error :: "nat \<Rightarrow> string \<Rightarrow> error_info" where
  "mk_error s m = \<lparr>ei_status = s, ei_message = m, ei_details = JUndef\<rparr>"

text \<open>The \<open>if\<close>/\<open>else if\<close> chain over specific error types, starting from the default.\<close>

definition specific_error :: "js_error \<Rightarrow> error_info" where
  "specific_error err =
     (if err_name err = JStr ''ValidationError'' then
        \<lparr>ei_status = 400, ei_message = ''Validation error'', ei_details = err_details err\<rparr>
      else if err_name err = JStr ''CastError'' then mk_error 400 ''Invalid ID format''
      else if err_code err = JNum 11000 then mk_error 409 ''Duplicate field value''
      else if err_name err = JStr ''JsonWebTokenError'' then mk_error 401 ''Invalid token''
      else if err_name err = JStr ''TokenExpiredError'' then mk_error 401 ''Token expired''
      else if err_type err = JStr ''entity.parse.failed'' then mk_error 400 ''Invalid JSON payload''
      else if err_type err = JStr ''entity.too.large'' then mk_error 413 ''Payload too large''
      else if err_code err = JStr ''LIMIT_FILE_SIZE'' then mk_error 413 ''File too large''
      else if err_code err = JStr ''LIMIT_UNEXPECTED_FILE'' then mk_error 400 ''Unexpected file field''
      else mk_error 500 ''Internal server error'')"

text \<open>The \<open>switch (err.code)\<close> over Azure service errors, guarded by \<open>if (err.code)\<close>.\<close>

definition azure_error :: "js_error \<Rightarrow> error_info \<Rightarrow> error_info" where
  "azure_error err error =
     (if truthy (err_code err) then
        (if err_code err = JStr ''Unauthorized'' then
           mk_error 401 ''Azure service authentication failed''
         else if err_code err = JStr ''Forbidden'' then
           mk_error 403 ''Azure service access denied''
         else if err_code err = JStr ''NotFound'' then
           mk_error 404 ''Azure resource not found''
         else if err_code err = JStr ''TooManyRequests'' then
           mk_error 429 ''Azure service rate limit exceeded''
         else if err_code err = JStr ''ServiceUnavailable'' then
           mk_error 503 ''Azure service temporarily unavailable''
         else error)
      else error)"

definition network_error :: "js_error \<Rightarrow> error_info \<Rightarrow> error_info" where
  "network_error err error =
     (if err_code err = JStr ''ECONNREFUSED'' \<or> err_code err = JStr ''ETIMEDOUT'' then
        mk_error 503 ''Service temporarily unavailable''
      else error)"

text \<open>
  The response body. \<open>node_env\<close> is \<open>process.env.NODE_ENV\<close>, \<open>now\<close> the ISO timestamp of the
  clock, \<open>path\<close> and \<open>rid\<close> the request's \<open>path\<close> and \<open>id\<close>.
\<close>

definition errorHandler ::
  "string option \<Rightarrow> string \<Rightarrow> string \<Rightarrow> jsval \<Rightarrow> js_error \<Rightarrow> response" where
  "errorHandler node_env now path rid err =
     (let error = network_error err (azure_error err (specific_error err));
          base = [(''error'', JStr (ei_message error)),
                  (''status'', JNum (of_nat (ei_status error))),
                  (''timestamp'', JStr now),
                  (''path'', JStr path)];
          dev = (if node_env = Some ''development'' then
                   [(''stack'', err_stack err),
                    (''details'', js_or (ei_details error) (err_message err))]
                 else []);
          reqid = (if truthy rid then [(''requestId'', rid)] else [])
      in \<lparr>status = ei_status error, body = JObj (base @ dev @ reqid)\<rparr>)"

text \<open>
  An error that matches none of the names, codes and types the handler recognizes.
\<close>

definition recognized_names :: "string list" where
  "recognized_names =
     [''ValidationError'', ''CastError'', ''JsonWebTokenError'', ''TokenExpiredError'']"

definition recognized_types :: "string list" where
  "recognized_types = [''entity.parse.failed'', ''entity.too.large'']"

definition recognized_codes :: "jsval list" where
  "recognized_codes =
     [JNum 11000, JStr ''LIMIT_FILE_SIZE'', JStr ''LIMIT_UNEXPECTED_FILE'',
      JStr ''Unauthorized'', JStr ''Forbidden'', JStr ''NotFound'', JStr ''TooManyRequests'',
      JStr ''ServiceUnavailable'', JStr ''ECONNREFUSED'', JStr ''ETIMEDOUT'']"

definition unrecognized :: "js_error \<Rightarrow> bool" where
  "unrecognized err \<longleftrightarrow>
     err_name err \<notin> set (map JStr recognized_names) \<and>
     err_type err \<notin> set (map JStr recognized_types) \<and>
     err_code err \<notin> set recognized_codes"

definition body_error :: "response \<Rightarrow> jsval" where
  "body_error r = (case body r of JObj kvs \<Rightarrow> (case map_of kvs ''error'' of Some v \<Rightarrow> v | None \<Rightarrow> JUndef) | _ \<Rightarrow> JUndef)"

text \<open>An \<open>Error\<close> object carrying the given \<open>code\<close> and nothing else of interest.\<close>

definition error_with_code :: "jsval \<Rightarrow> js_error" where
  "error_with_code c =
     \<lparr>err_name = JStr ''Error'', err_code = c, err_type = JUndef,
      err_message = JStr ''boom'', err_stack = JStr ''Error: boom'', err_details = JUndef\<rparr>"

section \<open>The server and its services\<close>

text \<open>
  What a request handler can read of the server: the Azure clients that
  \<open>initializeAzureClients\<close> has stored in the module variable \<open>azureClients\<close> (each one is
  there or not), and the environment variables. The handlers below take this state and
  hand it back with their response, so that a handler that wrote to it would show.
\<close>

record server =
  openai_client :: bool
  translator_client :: bool
  blob_client :: bool
  env :: "string \<Rightarrow> string option"

text \<open>
  Calls to the outside world: the chat completion of Azure OpenAI with its messages,
  \<open>max_tokens\<close> and \<open>temperature\<close>; the image analysis of Azure Vision with the query
  parameters \<open>features\<close> and \<open>language\<close> and the size of the image; the Translator
  with the request options, or asked for its languages; the upload of an image of some
  size and name to blob storage.
\<close>

datatype service_call =
    OpenAIChat "jsval list" nat rat
  | VisionAnalyze string jsval nat
  | TranslatorTranslate jsval
  | TranslatorLanguages
  | BlobUpload nat string

text \<open>What a service answers: a value, or an exception thrown into the handler.\<close>

datatype 'a service_reply = Returned 'a | Thrown js_error

record outcome =
  reply :: response
  calls :: "service_call list"
  state :: server

definition json_response :: "nat \<Rightarrow> (string \<times> jsval) list \<Rightarrow> response" where
  "json_response code kvs = \<lparr>status = code, body = JObj kvs\<rparr>"

definition error_response :: "nat \<Rightarrow> string \<Rightarrow> string \<Rightarrow> response" where
  "error_response code err msg =
     json_response code [(''error'', JStr err), (''message'', JStr msg)]"

text \<open>\<open>azureConfig.openai\<close> (config/azure.js).\<close>

definition maxTokens :: nat where
  "maxTokens = 4000"

definition temperature :: rat where
  "temperature = 7 / 10"

section \<open>Chat routes (routes/chat.js)\<close>

subsection \<open>buildAnalysisContext\<close>

text \<open>
  \<open>xs.forEach((x, i) => { context += line })\<close>: the lines are appended in order; the first
  one that throws ends the loop.
\<close>

fun append_each ::
  "(nat \<Rightarrow> jsval \<Rightarrow> string option) \<Rightarrow> nat \<Rightarrow> jsval list \<Rightarrow> string \<Rightarrow> string option" where
  "append_each line i [] context = Some context"
| "append_each line i (x # xs) context =
     do { l \<leftarrow> line i x; append_each line (Suc i) xs (context @ l) }"

definition forEach_append ::
  "(nat \<Rightarrow> jsval \<Rightarrow> string option) \<Rightarrow> jsval \<Rightarrow> string \<Rightarrow> string option" where
  "forEach_append line v context = do { xs \<leftarrow> as_array v; append_each line 0 xs context }"

text \<open>The template \<open>`${a.k}`\<close>: read the property, convert it to a string.\<close>

definition show_prop :: "(rat \<Rightarrow> string) \<Rightarrow> jsval \<Rightarrow> string \<Rightarrow> string option" where
  "show_prop ns v k = do { w \<leftarrow> get_prop v k; to_string ns w }"

definition caption_text :: "(rat \<Rightarrow> string) \<Rightarrow> jsval \<Rightarrow> string option" where
  "caption_text ns caption = do {
     t \<leftarrow> show_prop ns caption ''text'';
     c \<leftarrow> show_prop ns caption ''confidence'';
     Some (''Image Description: '' @ t @ '' (confidence: '' @ c @ '')\<newline>\<newline>'')
   }"

definition caption_line :: "(rat \<Rightarrow> string) \<Rightarrow> nat \<Rightarrow> jsval \<Rightarrow> string option" where
  "caption_line ns i cap = do {
     t \<leftarrow> show_prop ns cap ''text'';
     c \<leftarrow> show_prop ns cap ''confidence'';
     Some (''- '' @ t @ '' (confidence: '' @ c @ '')\<newline>'')
   }"

definition object_line :: "(rat \<Rightarrow> string) \<Rightarrow> nat \<Rightarrow> jsval \<Rightarrow> string option" where
  "object_line ns i obj = do {
     name \<leftarrow> show_prop ns obj ''object'';
     rectangle \<leftarrow> get_prop obj ''rectangle'';
     x \<leftarrow> show_prop ns rectangle ''x'';
     y \<leftarrow> show_prop ns rectangle ''y'';
     c \<leftarrow> show_prop ns obj ''confidence'';
     Some (''- '' @ name @ '' at location ('' @ x @ '', '' @ y @ '') with confidence '' @ c @
           ''\<newline>'')
   }"

definition person_line :: "(rat \<Rightarrow> string) \<Rightarrow> nat \<Rightarrow> jsval \<Rightarrow> string option" where
  "person_line ns i person = do {
     rectangle \<leftarrow> get_prop person ''rectangle'';
     x \<leftarrow> show_prop ns rectangle ''x'';
     y \<leftarrow> show_prop ns rectangle ''y'';
     Some (''- Person '' @ ns (of_nat (i + 1)) @ '' at location ('' @ x @ '', '' @ y @
           '')\<newline>'')
   }"

definition tag_text :: "(rat \<Rightarrow> string) \<Rightarrow> jsval \<Rightarrow> string option" where
  "tag_text ns tag = do {
     n \<leftarrow> show_prop ns tag ''name'';
     c \<leftarrow> show_prop ns tag ''confidence'';
     Some (n @ '' ('' @ c @ '')'')
   }"

text \<open>The body of each \<open>if\<close> of the routine: what it appends to \<open>context\<close>.\<close>

definition captions_text :: "(rat \<Rightarrow> string) \<Rightarrow> jsval \<Rightarrow> string option" where
  "captions_text ns captions = do {
     s \<leftarrow> forEach_append (caption_line ns) captions ''Detailed Captions:\<newline>'';
     Some (s @ ''\<newline>'')
   }"

definition objects_text :: "(rat \<Rightarrow> string) \<Rightarrow> jsval \<Rightarrow> string option" where
  "objects_text ns objects = do {
     s \<leftarrow> forEach_append (object_line ns) objects ''Detected Objects:\<newline>'';
     Some (s @ ''\<newline>'')
   }"

definition people_text :: "(rat \<Rightarrow> string) \<Rightarrow> jsval \<Rightarrow> string option" where
  "people_text ns people = do {
     n \<leftarrow> show_prop ns people ''length'';
     s \<leftarrow> forEach_append (person_line ns) people
            (''People Detected: '' @ n @ '' person(s)\<newline>'');
     Some (s @ ''\<newline>'')
   }"

definition tags_text :: "(rat \<Rightarrow> string) \<Rightarrow> jsval \<Rightarrow> string option" where
  "tags_text ns tags = do {
     xs \<leftarrow> as_array tags;
     ts \<leftarrow> those (map (tag_text ns) xs);
     Some (''Tags: '' @ intercalate '', '' ts @ ''\<newline>\<newline>'')
   }"

definition ocr_text :: "(rat \<Rightarrow> string) \<Rightarrow> jsval \<Rightarrow> string option" where
  "ocr_text ns text = do {
     s \<leftarrow> js_join ns '' '' text;
     Some (''Text Found in Image:\<newline>'' @ [CHR 0x22] @ s @ [CHR 0x22] @ ''\<newline>\<newline>'')
   }"

definition color_text :: "(rat \<Rightarrow> string) \<Rightarrow> jsval \<Rightarrow> string option" where
  "color_text ns color = do {
     context \<leftarrow> Some ''Color Analysis:\<newline>'';
     fg \<leftarrow> get_prop color ''dominantColorForeground'';
     context \<leftarrow> (if truthy fg then do {
                   s \<leftarrow> to_string ns fg;
                   Some (context @ ''- Foreground: '' @ s @ ''\<newline>'')
                 } else Some context);
     bg \<leftarrow> get_prop color ''dominantColorBackground'';
     context \<leftarrow> (if truthy bg then do {
                   s \<leftarrow> to_string ns bg;
                   Some (context @ ''- Background: '' @ s @ ''\<newline>'')
                 } else Some context);
     dc \<leftarrow> get_prop color ''dominantColors'';
     context \<leftarrow> (if truthy dc then do {
                   s \<leftarrow> js_join ns '', '' dc;
                   Some (context @ ''- Dominant colors: '' @ s @ ''\<newline>'')
                 } else Some context);
     Some (context @ ''\<newline>'')
   }"

text \<open>
  The routine itself: seven \<open>if\<close> statements in a row, each appending to \<open>context\<close>.
  \<open>sgt\<close> and \<open>ns\<close> are the two conversions of section 1.
\<close>

definition buildAnalysisContext ::
  "(rat \<Rightarrow> string) \<Rightarrow> (string \<Rightarrow> rat \<Rightarrow> bool) \<Rightarrow> jsval \<Rightarrow> string option" where
  "buildAnalysisContext ns sgt results = do {
     context \<leftarrow> Some [];
     caption \<leftarrow> get_prop results ''caption'';
     context \<leftarrow> (if truthy caption then do {
                   s \<leftarrow> caption_text ns caption; Some (context @ s)
                 } else Some context);
     description \<leftarrow> get_prop results ''description'';
     captions \<leftarrow> Some (opt_prop description ''captions'');
     context \<leftarrow> (if truthy captions then do {
                   s \<leftarrow> captions_text ns captions; Some (context @ s)
                 } else Some context);
     objects \<leftarrow> get_prop results ''objects'';
     has_objects \<leftarrow> longer_than ns sgt objects 0;
     context \<leftarrow> (if has_objects then do {
                   s \<leftarrow> objects_text ns objects; Some (context @ s)
                 } else Some context);
     people \<leftarrow> get_prop results ''people'';
     has_people \<leftarrow> longer_than ns sgt people 0;
     context \<leftarrow> (if has_people then do {
                   s \<leftarrow> people_text ns people; Some (context @ s)
                 } else Some context);
     tags \<leftarrow> get_prop results ''tags'';
     has_tags \<leftarrow> longer_than ns sgt tags 0;
     context \<leftarrow> (if has_tags then do {
                   s \<leftarrow> tags_text ns tags; Some (context @ s)
                 } else Some context);
     text \<leftarrow> get_prop results ''text'';
     has_text \<leftarrow> longer_than ns sgt text 0;
     context \<leftarrow> (if has_text then do {
                   s \<leftarrow> ocr_text ns text; Some (context @ s)
                 } else Some context);
     color \<leftarrow> get_prop results ''color'';
     context \<leftarrow> (if truthy color then do {
                   s \<leftarrow> color_text ns color; Some (context @ s)
                 } else Some context);
     Some context
   }"

subsection \<open>The context as a concatenation of sections\<close>

text \<open>
  The reading of the routine as a list of sections in a fixed order. Each section
  corresponds to one field of the analysis results. A field is present when it is truthy;
  the list-valued fields \<open>objects\<close>, \<open>people\<close>, \<open>tags\<close> and \<open>text\<close> must be non-empty as
  well.
\<close>

datatype section_kind = Caption | DetailedCaptions | Objects | People | Tags | OcrText | Color

definition section_order :: "section_kind list" where
  "section_order = [Caption, DetailedCaptions, Objects, People, Tags, OcrText, Color]"

fun section_field :: "jsval \<Rightarrow> section_kind \<Rightarrow> jsval" where
  "section_field r Caption = opt_prop r ''caption''"
| "section_field r DetailedCaptions = opt_prop (opt_prop r ''description'') ''captions''"
| "section_field r Objects = opt_prop r ''objects''"
| "section_field r People = opt_prop r ''people''"
| "section_field r Tags = opt_prop r ''tags''"
| "section_field r OcrText = opt_prop r ''text''"
| "section_field r Color = opt_prop r ''color''"

fun list_valued :: "section_kind \<Rightarrow> bool" where
  "list_valued Objects = True"
| "list_valued People = True"
| "list_valued Tags = True"
| "list_valued OcrText = True"
| "list_valued _ = False"

definition section_present ::
  "(rat \<Rightarrow> string) \<Rightarrow> (string \<Rightarrow> rat \<Rightarrow> bool) \<Rightarrow> jsval \<Rightarrow> section_kind \<Rightarrow> bool" where
  "section_present ns sgt r k =
     (if list_valued k then longer_than ns sgt (section_field r k) 0 = Some True
      else truthy (section_field r k))"

fun section_text :: "(rat \<Rightarrow> string) \<Rightarrow> section_kind \<Rightarrow> jsval \<Rightarrow> string option" where
  "section_text ns Caption v = caption_text ns v"
| "section_text ns DetailedCaptions v = captions_text ns v"
| "section_text ns Objects v = objects_text ns v"
| "section_text ns People v = people_text ns v"
| "section_text ns Tags v = tags_text ns v"
| "section_text ns OcrText v = ocr_text ns v"
| "section_text ns Color v = color_text ns v"

definition present_sections_context ::
  "(rat \<Rightarrow> string) \<Rightarrow> (string \<Rightarrow> rat \<Rightarrow> bool) \<Rightarrow> jsval \<Rightarrow> string option" where
  "present_sections_context ns sgt r =
     map_option concat
       (those (map (\<lambda>k. section_text ns k (section_field r k))
                   (filter (section_present ns sgt r) section_order)))"

subsection \<open>System prompts\<close>

text \<open>
  The fixed text of the two system prompts, cut at the places where the templates insert a
  value. The four heading markers of the enhanced prompt are not ASCII; they are given by
  their byte values.
\<close>

definition enhanced_prompt_head :: string where
  "enhanced_prompt_head =
     ''You are an engaging, knowledgeable AI assistant helping users explore '' @
     ''and understand their image. You have access to a comprehensive AI analysis '' @
     ''of the image.\<newline>'' @
     ''\<newline>'' @
     [CHR 0xF0, CHR 0x9F, CHR 0x8E, CHR 0xAF] @
     '' YOUR PERSONALITY:\<newline>'' @
     ''- Be conversational, enthusiastic, and insightful\<newline>'' @
     ''- Use descriptive, vivid language\<newline>'' @
     ''- Show curiosity and help users discover new details\<newline>'' @
     ''- Be like a knowledgeable friend sharing insights\<newline>'' @
     ''\<newline>'' @
     [CHR 0xF0, CHR 0x9F, CHR 0x93, CHR 0xB8] @
     '' IMAGE ANALYSIS DETAILS:\<newline>'' @
     ''Main Description: ''"

definition enhanced_prompt_tail :: string where
  "enhanced_prompt_tail =
     ''\<newline>'' @
     ''\<newline>'' @
     [CHR 0xF0, CHR 0x9F, CHR 0x8E, CHR 0xA8] @
     '' YOUR CAPABILITIES:\<newline>'' @
     ''- Answer questions about what's visible in the image\<newline>'' @
     ''- Explain the mood, atmosphere, and composition\<newline>'' @
     ''- Discuss the story or narrative the image tells\<newline>'' @
     ''- Help identify interesting details users might miss\<newline>'' @
     ''- Provide context about the setting and activities\<newline>'' @
     ''- Interpret the artistic or emotional elements\<newline>'' @
     ''\<newline>'' @
     [CHR 0xF0, CHR 0x9F, CHR 0x92, CHR 0xAC] @
     '' CONVERSATION STYLE:\<newline>'' @
     ''- Be enthusiastic and descriptive\<newline>'' @
     ''- Use sensory language when appropriate\<newline>'' @
     ''- Ask follow-up questions to engage the user\<newline>'' @
     ''- Share insights that might surprise or delight\<newline>'' @
     ''- Reference specific details from the analysis\<newline>'' @
     ''- Be encouraging and positive\<newline>'' @
     ''\<newline>'' @
     ''Always base responses on the analysis provided. If asked about something '' @
     ''not in the analysis, creatively suggest what you can discuss instead.''"

definition standard_prompt_head :: string where
  "standard_prompt_head =
     ''You are an AI assistant that helps users understand and explore their '' @
     ''image analysis results. \<newline>'' @
     ''        \<newline>'' @
     ''You have access to detailed analysis results from Azure Computer Vision '' @
     ''API including:\<newline>'' @
     ''- Image descriptions and captions\<newline>'' @
     ''- Detected objects and their locations\<newline>'' @
     ''- People detection and analysis\<newline>'' @
     ''- Text recognition (OCR)\<newline>'' @
     ''- Tags and categories\<newline>'' @
     ''- Color analysis\<newline>'' @
     ''\<newline>'' @
     ''Your role is to:\<newline>'' @
     ''1. Answer questions about what's in the image based on the analysis results\<newline>'' @
     ''2. Explain the AI analysis in simple, conversational terms\<newline>'' @
     ''3. Help users discover interesting details they might have missed\<newline>'' @
     ''4. Provide insights about composition, objects, text, or people in the '' @
     ''image\<newline>'' @
     ''5. Be conversational and engaging while staying accurate to the analysis '' @
     ''data\<newline>'' @
     ''\<newline>'' @
     ''Always base your responses on the provided analysis results. If asked '' @
     ''about something not in the analysis, politely explain what information '' @
     ''is available.\<newline>'' @
     ''\<newline>'' @
     ''Here are the current image analysis results:\<newline>''"

text \<open>\<open>v?.join(sep) || dflt\<close>, as the enhanced prompt has it four times.\<close>

definition join_or :: "(rat \<Rightarrow> string) \<Rightarrow> string \<Rightarrow> jsval \<Rightarrow> string \<Rightarrow> string option" where
  "join_or ns sep v dflt =
     (if nullish v then Some dflt
      else do { s \<leftarrow> js_join ns sep v; Some (if s = [] then dflt else s) })"

definition buildEnhancedSystemPrompt :: "(rat \<Rightarrow> string) \<Rightarrow> jsval \<Rightarrow> string option" where
  "buildEnhancedSystemPrompt ns analysisResults = do {
     analysis \<leftarrow> get_prop analysisResults ''analysis'';
     mainDescription \<leftarrow> show_prop ns analysis ''mainDescription'';
     sceneContext \<leftarrow> show_prop ns analysisResults ''sceneContext'';
     moodAtmosphere \<leftarrow> show_prop ns analysisResults ''moodAtmosphere'';
     activities \<leftarrow> get_prop analysisResults ''activities'';
     activities \<leftarrow> join_or ns '', '' activities ''None specified'';
     objects \<leftarrow> get_prop analysis ''objects'';
     objects \<leftarrow> join_or ns '', '' objects ''None detected'';
     text \<leftarrow> get_prop analysisResults ''text'';
     text \<leftarrow> join_or ns '' '' text ''No text detected'';
     colorsComposition \<leftarrow> show_prop ns analysisResults ''colorsComposition'';
     details \<leftarrow> get_prop analysisResults ''interestingDetails'';
     details \<leftarrow> join_or ns '', '' details ''None noted'';
     Some (enhanced_prompt_head @ mainDescription @
           ''\<newline>Scene Context: '' @ sceneContext @
           ''\<newline>Mood/Atmosphere: '' @ moodAtmosphere @
           ''\<newline>Activities: '' @ activities @
           ''\<newline>Key Objects: '' @ objects @
           ''\<newline>Text Content: '' @ text @
           ''\<newline>Colors & Composition: '' @ colorsComposition @
           ''\<newline>Interesting Details: '' @ details @
           enhanced_prompt_tail)
   }"

definition buildStandardSystemPrompt :: "string \<Rightarrow> string" where
  "buildStandardSystemPrompt analysisContext = standard_prompt_head @ analysisContext"

subsection \<open>Question suggestions\<close>

text \<open>\<open>v[0]\<close>: the first element of an array, the first character of a string, the own
  property \<open>0\<close> of an object.\<close>

fun index0 :: "jsval \<Rightarrow> jsval option" where
  "index0 JUndef = None"
| "index0 JNull = None"
| "index0 (JArr xs) = Some (case xs of [] \<Rightarrow> JUndef | x # _ \<Rightarrow> x)"
| "index0 (JStr s) = Some (case s of [] \<Rightarrow> JUndef | c # _ \<Rightarrow> JStr [c])"
| "index0 (JObj kvs) = Some (own kvs ''0'')"
| "index0 _ = Some JUndef"

definition generateEnhancedSuggestions ::
  "(rat \<Rightarrow> string) \<Rightarrow> (string \<Rightarrow> rat \<Rightarrow> bool) \<Rightarrow> jsval \<Rightarrow> string list option" where
  "generateEnhancedSuggestions ns sgt results = do {
     suggestions \<leftarrow> Some [];
     analysis \<leftarrow> get_prop results ''analysis'';
     mainDescription \<leftarrow> get_prop analysis ''mainDescription'';
     suggestions \<leftarrow> Some (if truthy mainDescription then
         suggestions @ [''What story does this image tell?'',
                        ''What draws your attention most in this scene?'']
       else suggestions);
     activities \<leftarrow> get_prop results ''activities'';
     has_activities \<leftarrow> longer_than ns sgt activities 0;
     suggestions \<leftarrow> (if has_activities then do {
         first \<leftarrow> index0 activities;
         a \<leftarrow> to_string ns first;
         Some (suggestions @ [''Tell me more about the '' @ a @ '' happening here'',
                              ''What might happen next in this scene?''])
       } else Some suggestions);
     moodAtmosphere \<leftarrow> get_prop results ''moodAtmosphere'';
     suggestions \<leftarrow> Some (if truthy moodAtmosphere then
         suggestions @ [''How does this image make you feel?'',
                        ''What creates the mood in this image?'']
       else suggestions);
     interestingDetails \<leftarrow> get_prop results ''interestingDetails'';
     has_details \<leftarrow> longer_than ns sgt interestingDetails 0;
     suggestions \<leftarrow> Some (if has_details then
         suggestions @ [''What's the most interesting detail you notice?'',
                        ''What details might I have missed?'']
       else suggestions);
     colorsComposition \<leftarrow> get_prop results ''colorsComposition'';
     suggestions \<leftarrow> Some (if truthy colorsComposition then
         suggestions @ [''What makes this image visually appealing?'',
                        ''How do the colors work together?'']
       else suggestions);
     sceneContext \<leftarrow> get_prop results ''sceneContext'';
     suggestions \<leftarrow> Some (if truthy sceneContext then
         suggestions @ [''What does the setting tell us about this moment?'',
                        ''If you were there, what would you notice first?'']
       else suggestions);
     Some (take 6 suggestions)
   }"

definition generateQuestionSuggestions ::
  "(rat \<Rightarrow> string) \<Rightarrow> (string \<Rightarrow> rat \<Rightarrow> bool) \<Rightarrow> jsval \<Rightarrow> string list option" where
  "generateQuestionSuggestions ns sgt results = do {
     enhanced \<leftarrow> get_prop results ''enhanced'';
     analysis \<leftarrow> get_prop results ''analysis'';
     if truthy enhanced \<and> truthy analysis then generateEnhancedSuggestions ns sgt results
     else do {
       suggestions \<leftarrow> Some [''What do you see in this image?'',
                           ''Can you describe the main subject?''];
       objects \<leftarrow> get_prop results ''objects'';
       has_objects \<leftarrow> longer_than ns sgt objects 0;
       suggestions \<leftarrow> (if has_objects then do {
           xs \<leftarrow> as_array objects;
           objectNames \<leftarrow> those (map (\<lambda>obj. get_prop obj ''object'') xs);
           first \<leftarrow> to_string ns (case objectNames of [] \<Rightarrow> JUndef | n # _ \<Rightarrow> n);
           Some (suggestions @ [''Tell me more about the '' @ first @ '' in the image''] @
                 (if length objectNames > 1 then
                    [''What's the relationship between the objects?''] else []))
         } else Some suggestions);
       people \<leftarrow> get_prop results ''people'';
       has_people \<leftarrow> longer_than ns sgt people 0;
       suggestions \<leftarrow> (if has_people then do {
           more \<leftarrow> longer_than ns sgt people 1;
           Some (suggestions @ [''What can you tell me about the people in the image?''] @
                 (if more then [''How many people are in the image and where are they?'']
                  else []))
         } else Some suggestions);
       text \<leftarrow> get_prop results ''text'';
       has_text \<leftarrow> longer_than ns sgt text 0;
       suggestions \<leftarrow> Some (if has_text then
           suggestions @ [''What does the text in the image say?'',
                          ''Can you explain the meaning of the text?'']
         else suggestions);
       suggestions \<leftarrow> Some (suggestions @
         [''What are the dominant colors?'', ''How would you describe the composition?'',
          ''What's the setting or location?'', ''What might be happening in this scene?'']);
       Some (take 6 suggestions)
     }
   }"

definition relationship_question :: string where
  "relationship_question = ''What's the relationship between the objects?''"

definition basic_questions :: "string list" where
  "basic_questions = [''What do you see in this image?'', ''Can you describe the main subject?'']"

definition people_questions :: "string list" where
  "people_questions =
     [''What can you tell me about the people in the image?'',
      ''How many people are in the image and where are they?'']"

definition text_questions :: "string list" where
  "text_questions =
     [''What does the text in the image say?'', ''Can you explain the meaning of the text?'']"

text \<open>
  What the description of the suggestions calls object-specific, people and text
  questions: the questions of the respective \<open>if\<close> block.
\<close>

definition object_prefix :: string where
  "object_prefix = ''Tell me more about the ''"

definition object_suffix :: string where
  "object_suffix = '' in the image''"

definition object_question :: "string \<Rightarrow> string" where
  "object_question name = object_prefix @ name @ object_suffix"

definition is_object_question :: "string \<Rightarrow> bool" where
  "is_object_question q \<longleftrightarrow>
     (length object_prefix + length object_suffix \<le> length q \<and>
      take (length object_prefix) q = object_prefix \<and>
      drop (length q - length object_suffix) q = object_suffix) \<or>
     q = relationship_question"

definition has_object_question :: "string list \<Rightarrow> bool" where
  "has_object_question l \<longleftrightarrow> list_ex is_object_question l"

definition has_people_question :: "string list \<Rightarrow> bool" where
  "has_people_question l \<longleftrightarrow> list_ex (\<lambda>q. q \<in> set people_questions) l"

definition has_text_question :: "string list \<Rightarrow> bool" where
  "has_text_question l \<longleftrightarrow> list_ex (\<lambda>q. q \<in> set text_questions) l"

text \<open>A field of the results is non-empty, or has more than one entry.\<close>

definition non_empty ::
  "(rat \<Rightarrow> string) \<Rightarrow> (string \<Rightarrow> rat \<Rightarrow> bool) \<Rightarrow> jsval \<Rightarrow> string \<Rightarrow> bool" where
  "non_empty ns sgt results field \<longleftrightarrow>
     longer_than ns sgt (opt_prop results field) 0 = Some True"

definition several ::
  "(rat \<Rightarrow> string) \<Rightarrow> (string \<Rightarrow> rat \<Rightarrow> bool) \<Rightarrow> jsval \<Rightarrow> string \<Rightarrow> bool" where
  "several ns sgt results field \<longleftrightarrow>
     non_empty ns sgt results field \<and>
     longer_than ns sgt (opt_prop results field) 1 = Some True"

text \<open>
  The list of the standard branch, given which fields are non-empty and which have several
  entries; \<open>n\<close> is the printed name of the first object.
\<close>

definition standard_list ::
  "(rat \<Rightarrow> string) \<Rightarrow> (string \<Rightarrow> rat \<Rightarrow> bool) \<Rightarrow> jsval \<Rightarrow> string \<Rightarrow> string list" where
  "standard_list ns sgt r n = take 6
     ([''What do you see in this image?'', ''Can you describe the main subject?''] @
      (if non_empty ns sgt r ''objects'' then
         [object_question n] @
         (if several ns sgt r ''objects'' then
            [''What's the relationship between the objects?''] else [])
       else []) @
      (if non_empty ns sgt r ''people'' then
         [''What can you tell me about the people in the image?''] @
         (if several ns sgt r ''people'' then
            [''How many people are in the image and where are they?''] else [])
       else []) @
      (if non_empty ns sgt r ''text'' then
         [''What does the text in the image say?'', ''Can you explain the meaning of the text?'']
       else []) @
      [''What are the dominant colors?'', ''How would you describe the composition?'',
       ''What's the setting or location?'', ''What might be happening in this scene?''])"

subsection \<open>POST /api/chat/analyze\<close>

definition history_message :: "jsval \<Rightarrow> jsval option" where
  "history_message msg = do {
     role \<leftarrow> get_prop msg ''role'';
     content \<leftarrow> get_prop msg ''content'';
     Some (JObj [(''role'', JStr (if role = JStr ''user'' then ''user'' else ''assistant'')),
                 (''content'', content)])
   }"

text \<open>
  The handler up to the call of OpenAI. It ends early with a response (\<open>Inl\<close>), goes on
  with the messages to send (\<open>Inr\<close>), or throws (\<open>None\<close>). The log line before the call
  takes \<open>question.substring(0, 100)\<close>, which needs a string.
\<close>

definition chat_prepare ::
  "server \<Rightarrow> (rat \<Rightarrow> string) \<Rightarrow> (string \<Rightarrow> rat \<Rightarrow> bool) \<Rightarrow> jsval \<Rightarrow> (response + jsval list) option" where
  "chat_prepare s ns sgt req_body = do {
     question \<leftarrow> get_prop req_body ''question'';
     analysisResults \<leftarrow> get_prop req_body ''analysisResults'';
     history \<leftarrow> get_prop req_body ''conversationHistory'';
     conversationHistory \<leftarrow> Some (if history = JUndef then JArr [] else history);
     if \<not> truthy question \<or> \<not> truthy analysisResults then
       Some (Inl (error_response 400 ''Bad Request''
                    ''Missing required fields: question and analysisResults''))
     else if \<not> openai_client s then
       Some (Inl (error_response 503 ''Service Unavailable'' ''OpenAI service not configured''))
     else do {
       analysisContext \<leftarrow> buildAnalysisContext ns sgt analysisResults;
       enhanced \<leftarrow> get_prop analysisResults ''enhanced'';
       analysis \<leftarrow> get_prop analysisResults ''analysis'';
       systemPrompt \<leftarrow> (if truthy enhanced \<and> truthy analysis then
                          buildEnhancedSystemPrompt ns analysisResults
                        else Some (buildStandardSystemPrompt analysisContext));
       msgs \<leftarrow> as_array conversationHistory;
       past \<leftarrow> those (map history_message msgs);
       _ \<leftarrow> as_string question;
       Some (Inr ([JObj [(''role'', JStr ''system''), (''content'', JStr systemPrompt)]] @
                  past @
                  [JObj [(''role'', JStr ''user''), (''content'', question)]]))
     }
   }"

text \<open>The \<open>catch\<close> block.\<close>

definition chat_catch :: "js_error \<Rightarrow> response" where
  "chat_catch error =
     (if err_code error = JStr ''insufficient_quota'' then
        error_response 429 ''Quota Exceeded'' ''OpenAI quota exceeded. Please try again later.''
      else if err_code error = JStr ''content_filter'' then
        error_response 400 ''Content Filtered''
          ''Your question was filtered by content policy. Please rephrase.''
      else error_response 500 ''Internal Server Error'' ''Failed to process chat request'')"

text \<open>A TypeError, or the \<open>Error\<close> the handler throws itself: no \<open>code\<close>.\<close>

definition plain_error :: js_error where
  "plain_error =
     \<lparr>err_name = JStr ''Error'', err_code = JUndef, err_type = JUndef,
      err_message = JUndef, err_stack = JUndef, err_details = JUndef\<rparr>"

text \<open>The handler after the call: \<open>response.choices[0]?.message?.content\<close>.\<close>

definition chat_answer :: "jsval \<Rightarrow> jsval option" where
  "chat_answer response = do {
     choices \<leftarrow> get_prop response ''choices'';
     first \<leftarrow> index0 choices;
     Some (opt_prop (opt_prop first ''message'') ''content'')
   }"

definition chat_finish :: "string \<Rightarrow> jsval \<Rightarrow> jsval service_reply \<Rightarrow> response" where
  "chat_finish now question r =
     (case r of
        Thrown error \<Rightarrow> chat_catch error
      | Returned response \<Rightarrow>
          (case chat_answer response of
             None \<Rightarrow> chat_catch plain_error
           | Some answer \<Rightarrow>
               if \<not> truthy answer then chat_catch plain_error
               else json_response 200
                      [(''question'', question), (''answer'', answer),
                       (''timestamp'', JStr now), (''usage'', opt_prop response ''usage'')]))"

text \<open>
  The whole handler. \<open>now\<close> is the clock, \<open>r\<close> what OpenAI answers if it is called.
\<close>

definition chat_analyze ::
  "server \<Rightarrow> (rat \<Rightarrow> string) \<Rightarrow> (string \<Rightarrow> rat \<Rightarrow> bool) \<Rightarrow> string \<Rightarrow> jsval service_reply \<Rightarrow> jsval \<Rightarrow> outcome" where
  "chat_analyze s ns sgt now r req_body =
     (case chat_prepare s ns sgt req_body of
        None \<Rightarrow> \<lparr>reply = chat_catch plain_error, calls = [], state = s\<rparr>
      | Some (Inl early) \<Rightarrow> \<lparr>reply = early, calls = [], state = s\<rparr>
      | Some (Inr messages) \<Rightarrow>
          \<lparr>reply = chat_finish now (opt_prop req_body ''question'') r,
           calls = [OpenAIChat messages maxTokens temperature], state = s\<rparr>)"

subsection \<open>POST /api/chat/suggestions\<close>

definition chat_suggestions ::
  "server \<Rightarrow> (rat \<Rightarrow> string) \<Rightarrow> (string \<Rightarrow> rat \<Rightarrow> bool) \<Rightarrow> string \<Rightarrow> jsval \<Rightarrow> outcome" where
  "chat_suggestions s ns sgt now req_body =
     (let attempt = do {
            analysisResults \<leftarrow> get_prop req_body ''analysisResults'';
            if \<not> truthy analysisResults then
              Some (error_response 400 ''Bad Request''
                      ''Missing required field: analysisResults'')
            else do {
              suggestions \<leftarrow> generateQuestionSuggestions ns sgt analysisResults;
              Some (json_response 200
                      [(''suggestions'', JArr (map JStr suggestions)),
                       (''timestamp'', JStr now)])
            }
          }
      in \<lparr>reply = (case attempt of
                      None \<Rightarrow> error_response 500 ''Internal Server Error''
                                ''Failed to generate suggestions''
                    | Some res \<Rightarrow> res),
          calls = [], state = s\<rparr>)"

text \<open>The suggestion list of a response, if it carries one.\<close>

definition suggestions_of :: "response \<Rightarrow> jsval" where
  "suggestions_of res = opt_prop (body res) ''suggestions''"

text \<open>The messages of the calls to OpenAI.\<close>

fun sent_messages :: "service_call list \<Rightarrow> jsval list list" where
  "sent_messages [] = []"
| "sent_messages (OpenAIChat messages mt t # cs) = messages # sent_messages cs"
| "sent_messages (c # cs) = sent_messages cs"

section \<open>Sample analysis results\<close>

definition rectangle0 :: jsval where
  "rectangle0 = JObj [(''x'', JNum 0), (''y'', JNum 0), (''w'', JNum 100), (''h'', JNum 100)]"

definition detected :: "string \<Rightarrow> jsval" where
  "detected name =
     JObj [(''object'', JStr name), (''confidence'', JNum 1), (''rectangle'', rectangle0)]"

text \<open>Results with every field the context routine reads.\<close>

definition full_results :: jsval where
  "full_results = JObj
     [(''caption'', JObj [(''text'', JStr ''A cat''), (''confidence'', JNum 1)]),
      (''description'',
         JObj [(''captions'', JArr [JObj [(''text'', JStr ''A cat''), (''confidence'', JNum 1)]])]),
      (''objects'', JArr [detected ''cat'', detected ''dog'']),
      (''people'', JArr [JObj [(''rectangle'', rectangle0)]]),
      (''tags'', JArr [JObj [(''name'', JStr ''pet''), (''confidence'', JNum 1)]]),
      (''text'', JArr [JStr ''hi'', JStr ''there'']),
      (''color'', JObj [(''dominantColorForeground'', JStr ''Black''),
                       (''dominantColors'', JArr [JStr ''red'', JStr ''blue''])])]"

definition full_context :: string where
  "full_context =
     ''Image Description: A cat (confidence: 1)\<newline>'' @
     ''\<newline>'' @
     ''Detailed Captions:\<newline>'' @
     ''- A cat (confidence: 1)\<newline>'' @
     ''\<newline>'' @
     ''Detected Objects:\<newline>'' @
     ''- cat at location (0, 0) with confidence 1\<newline>'' @
     ''- dog at location (0, 0) with confidence 1\<newline>'' @
     ''\<newline>'' @
     ''People Detected: 1 person(s)\<newline>'' @
     ''- Person 1 at location (0, 0)\<newline>'' @
     ''\<newline>'' @
     ''Tags: pet (1)\<newline>'' @
     ''\<newline>'' @
     ''Text Found in Image:\<newline>'' @
     [CHR 0x22] @
     ''hi there'' @
     [CHR 0x22] @
     ''\<newline>'' @
     ''\<newline>'' @
     ''Color Analysis:\<newline>'' @
     ''- Foreground: Black\<newline>'' @
     ''- Dominant colors: red, blue\<newline>'' @
     ''\<newline>''"

text \<open>
  Results whose objects have the shape of the classic analysis response (\<open>name\<close>,
  \<open>confidence\<close>, \<open>boundingBox\<close>) instead of \<open>object\<close> and \<open>rectangle\<close>.
\<close>

definition classic_shaped_results :: jsval where
  "classic_shaped_results = JObj
     [(''objects'',
         JArr [JObj [(''name'', JStr ''cat''), (''confidence'', JNum 1),
                     (''boundingBox'', rectangle0)]])]"

text \<open>Two objects, two people and some text; and text alone.\<close>

definition crowded_results :: jsval where
  "crowded_results = JObj
     [(''objects'', JArr [detected ''cat'', detected ''dog'']),
      (''people'', JArr [JObj [(''rectangle'', rectangle0)], JObj [(''rectangle'', rectangle0)]]),
      (''text'', JArr [JStr ''hi'', JStr ''there''])]"

definition crowded_suggestions :: "string list" where
  "crowded_suggestions =
     [''What do you see in this image?'', ''Can you describe the main subject?'',
      ''Tell me more about the cat in the image'',
      ''What's the relationship between the objects?'',
      ''What can you tell me about the people in the image?'',
      ''How many people are in the image and where are they?'']"

definition text_only_results :: jsval where
  "text_only_results = JObj [(''text'', JArr [JStr ''hi'', JStr ''there''])]"

definition text_only_suggestions :: "string list" where
  "text_only_suggestions =
     [''What do you see in this image?'', ''Can you describe the main subject?'',
      ''What does the text in the image say?'', ''Can you explain the meaning of the text?'',
      ''What are the dominant colors?'', ''How would you describe the composition?'']"

text \<open>A server with every client configured, and one chat request.\<close>

definition configured :: server where
  "configured =
     \<lparr>openai_client = True, translator_client = True, blob_client = True,
      env = map_of [(''VISION_ENDPOINT'', ''https://vision.example''),
                    (''VISION_API_KEY'', ''key'')]\<rparr>"

definition unconfigured :: server where
  "unconfigured =
     \<lparr>openai_client = False, translator_client = False, blob_client = False,
      env = map_of []\<rparr>"

definition openai_only :: server where
  "openai_only =
     \<lparr>openai_client = True, translator_client = False, blob_client = False,
      env = map_of []\<rparr>"

definition suggestions_request :: jsval where
  "suggestions_request = JObj [(''analysisResults'', text_only_results)]"

definition suggestions_request_extra :: jsval where
  "suggestions_request_extra =
     JObj [(''analysisResults'', text_only_results), (''extra'', JNull)]"

definition chat_request :: jsval where
  "chat_request = JObj
     [(''question'', JStr ''What is it?''),
      (''analysisResults'', text_only_results),
      (''conversationHistory'',
         JArr [JObj [(''role'', JStr ''user''), (''content'', JStr ''hello'')],
               JObj [(''role'', JStr ''bot''), (''content'', JStr ''hi'')]])]"

definition chat_request_messages :: "jsval list" where
  "chat_request_messages =
     [JObj [(''role'', JStr ''system''),
            (''content'', JStr (standard_prompt_head @
               ''Text Found in Image:\<newline>'' @ [CHR 0x22] @ ''hi there'' @ [CHR 0x22] @
               ''\<newline>\<newline>''))],
      JObj [(''role'', JStr ''user''), (''content'', JStr ''hello'')],
      JObj [(''role'', JStr ''assistant''), (''content'', JStr ''hi'')],
      JObj [(''role'', JStr ''user''), (''content'', JStr ''What is it?'')]]"

definition openai_answer :: "jsval service_reply" where
  "openai_answer =
     Returned (JObj [(''choices'',
        JArr [JObj [(''message'', JObj [(''content'', JStr ''A greeting.'')])]])])"

section \<open>Classic image analysis (routes/vision.js)\<close>

subsection \<open>The response built from the answer of Azure Vision\<close>

text \<open>\<open>v?.[0]\<close>.\<close>

definition opt_index0 :: "jsval \<Rightarrow> jsval" where
  "opt_index0 v = (case index0 v of None \<Rightarrow> JUndef | Some w \<Rightarrow> w)"

text \<open>
  \<open>result.xResult?.values?.map(f) || []\<close>, given \<open>result.xResult\<close>. The mapped array is
  truthy, so the empty array stands in only for \<open>undefined\<close>.
\<close>

definition values_map :: "(jsval \<Rightarrow> jsval option) \<Rightarrow> jsval \<Rightarrow> jsval option" where
  "values_map f x =
     (let vs = opt_prop x ''values'' in
      if nullish vs then Some (JArr [])
      else do { xs \<leftarrow> as_array vs; ys \<leftarrow> those (map f xs); Some (JArr ys) })"

definition dense_caption :: "jsval \<Rightarrow> jsval option" where
  "dense_caption cap = do {
     t \<leftarrow> get_prop cap ''text'';
     c \<leftarrow> get_prop cap ''confidence'';
     b \<leftarrow> get_prop cap ''boundingBox'';
     Some (JObj [(''text'', t), (''confidence'', c), (''boundingBox'', b)])
   }"

definition classic_object :: "jsval \<Rightarrow> jsval option" where
  "classic_object obj = do {
     tags \<leftarrow> get_prop obj ''tags'';
     first \<leftarrow> Some (opt_index0 tags);
     n \<leftarrow> get_prop obj ''name'';
     c \<leftarrow> get_prop obj ''confidence'';
     b \<leftarrow> get_prop obj ''boundingBox'';
     Some (JObj [(''name'', js_or (opt_prop first ''name'') n),
                 (''confidence'', js_or (opt_prop first ''confidence'') c),
                 (''boundingBox'', b)])
   }"

definition classic_person :: "jsval \<Rightarrow> jsval option" where
  "classic_person person = do {
     c \<leftarrow> get_prop person ''confidence'';
     b \<leftarrow> get_prop person ''boundingBox'';
     Some (JObj [(''confidence'', c), (''boundingBox'', b)])
   }"

definition classic_tag :: "jsval \<Rightarrow> jsval option" where
  "classic_tag tag = do {
     n \<leftarrow> get_prop tag ''name'';
     c \<leftarrow> get_prop tag ''confidence'';
     Some (JObj [(''name'', n), (''confidence'', c)])
   }"

definition smart_crop :: "jsval \<Rightarrow> jsval option" where
  "smart_crop crop = do {
     a \<leftarrow> get_prop crop ''aspectRatio'';
     b \<leftarrow> get_prop crop ''boundingBox'';
     Some (JObj [(''aspectRatio'', a), (''boundingBox'', b)])
   }"

text \<open>
  \<open>result.readResult?.blocks?.flatMap(block => block.lines.map(line => line.text))
  .join('\n') || null\<close>, given \<open>result.readResult\<close>.
\<close>

definition block_lines :: "jsval \<Rightarrow> jsval list option" where
  "block_lines block = do {
     ls \<leftarrow> get_prop block ''lines'';
     xs \<leftarrow> as_array ls;
     those (map (\<lambda>line. get_prop line ''text'') xs)
   }"

definition read_text :: "(rat \<Rightarrow> string) \<Rightarrow> jsval \<Rightarrow> jsval option" where
  "read_text ns readResult =
     (let blocks = opt_prop readResult ''blocks'' in
      if nullish blocks then Some JNull
      else do {
        bs \<leftarrow> as_array blocks;
        ls \<leftarrow> those (map block_lines bs);
        s \<leftarrow> js_join ns ''\<newline>'' (JArr (concat ls));
        Some (js_or (JStr s) JNull)
      })"

definition analysisResponse ::
  "(rat \<Rightarrow> string) \<Rightarrow> string \<Rightarrow> jsval \<Rightarrow> jsval \<Rightarrow> jsval option" where
  "analysisResponse ns now imageUrl result = do {
     captionResult \<leftarrow> get_prop result ''captionResult'';
     denseCaptionsResult \<leftarrow> get_prop result ''denseCaptionsResult'';
     denseCaptions \<leftarrow> values_map dense_caption denseCaptionsResult;
     objectsResult \<leftarrow> get_prop result ''objectsResult'';
     objects \<leftarrow> values_map classic_object objectsResult;
     peopleResult \<leftarrow> get_prop result ''peopleResult'';
     people \<leftarrow> values_map classic_person peopleResult;
     tagsResult \<leftarrow> get_prop result ''tagsResult'';
     tags \<leftarrow> values_map classic_tag tagsResult;
     smartCropsResult \<leftarrow> get_prop result ''smartCropsResult'';
     smartCrops \<leftarrow> values_map smart_crop smartCropsResult;
     readResult \<leftarrow> get_prop result ''readResult'';
     text \<leftarrow> read_text ns readResult;
     Some (JObj
       [(''success'', JBool True),
        (''timestamp'', JStr now),
        (''imageUrl'', imageUrl),
        (''analysis'', JObj
           [(''caption'', js_or (opt_prop captionResult ''text'') JNull),
            (''confidence'', js_or (opt_prop captionResult ''confidence'') JNull),
            (''denseCaptions'', denseCaptions),
            (''objects'', objects),
            (''people'', people),
            (''tags'', tags),
            (''smartCrops'', smartCrops),
            (''text'', text)])])
   }"

subsection \<open>POST /api/vision/analyze\<close>

text \<open>
  The file that multer leaves in \<open>req.file\<close>. With memory storage its buffer has
  \<open>file_size\<close> bytes; the model keeps the length of a buffer, not its bytes.
\<close>

record upload_file =
  fieldname :: string
  originalname :: string
  mimetype :: string
  file_size :: nat

text \<open>
  What Azure Vision answers to the \<open>axios.post\<close>: the data of a response; an error with
  a response (its status and data), which axios throws for a status outside 2xx; or an
  error without a response (no connection, timeout).
\<close>

datatype vision_reply = VisionData jsval | VisionHttpError nat jsval | VisionFailure

definition default_features :: "string list" where
  "default_features = [''Caption'', ''Objects'', ''Tags'', ''People'']"

text \<open>\<open>req.body.features ? req.body.features.split(',') : [...]\<close>.\<close>

definition request_features :: "jsval \<Rightarrow> string list option" where
  "request_features req_body = do {
     features \<leftarrow> get_prop req_body ''features'';
     if truthy features then do { s \<leftarrow> as_string features; Some (split_comma s) }
     else Some default_features
   }"

definition request_language :: "jsval \<Rightarrow> jsval option" where
  "request_language req_body = do {
     language \<leftarrow> get_prop req_body ''language'';
     Some (js_or language (JStr ''en''))
   }"

text \<open>
  The first \<open>if\<close> of the handler: the length of the image buffer, the features and the
  language (\<open>Inr\<close>), or an early response (\<open>Inl\<close>). \<open>decode v\<close> is the length of
  \<open>Buffer.from(v, 'base64')\<close>, or \<open>None\<close> where that throws; in the base64 branch an
  exception is caught by the inner \<open>catch\<close>.
\<close>

definition vision_input ::
  "(jsval \<Rightarrow> nat option) \<Rightarrow> upload_file option \<Rightarrow> jsval \<Rightarrow>
     (response + nat \<times> string list \<times> jsval) option" where
  "vision_input decode file req_body =
     (case file of
        Some f \<Rightarrow> do {
          features \<leftarrow> request_features req_body;
          language \<leftarrow> request_language req_body;
          Some (Inr (file_size f, features, language))
        }
      | None \<Rightarrow> do {
          image \<leftarrow> get_prop req_body ''image'';
          if truthy image then
            (case do {
                    n \<leftarrow> decode image;
                    features \<leftarrow> request_features req_body;
                    language \<leftarrow> request_language req_body;
                    Some (n, features, language)
                  } of
               None \<Rightarrow> Some (Inl (error_response 400 ''Invalid image data''
                                    ''Failed to decode base64 image data''))
             | Some x \<Rightarrow> Some (Inr x))
          else Some (Inl (error_response 400 ''No image data provided''
                  ''Please provide image data either as multipart file or base64 string''))
        })"

text \<open>The \<open>catch\<close> block of the handler; \<open>dev\<close> is \<open>NODE_ENV === 'development'\<close>.\<close>

definition analysis_failed :: "bool \<Rightarrow> jsval \<Rightarrow> response" where
  "analysis_failed dev message =
     json_response 500
       [(''error'', JStr ''Analysis failed''),
        (''message'', JStr ''Failed to analyze the image. Please try again.''),
        (''details'', if dev then message else JUndef)]"

definition analysis_rejected :: "bool \<Rightarrow> nat \<Rightarrow> jsval \<Rightarrow> response" where
  "analysis_rejected dev code dat =
     json_response code
       [(''error'', JStr ''Analysis failed''),
        (''message'', js_or (opt_prop (opt_prop dat ''error'') ''message'')
                           (JStr ''Failed to analyze the image. Please try again.'')),
        (''details'', if dev then dat else JUndef)]"

text \<open>
  The optional upload to blob storage:
  \<open>imageUrl = await uploadImageToBlob(imageBuffer, req.file.originalname)\<close> in a \<open>try\<close>
  of its own. Without \<open>req.file\<close> the argument throws before the call; without a blob
  client \<open>uploadImageToBlob\<close> throws before it reaches the storage; \<open>b\<close> is what the storage
  answers otherwise. Whatever is thrown is caught and \<open>imageUrl\<close> stays \<open>null\<close>.
\<close>

definition upload_step ::
  "server \<Rightarrow> upload_file option \<Rightarrow> nat \<Rightarrow> string service_reply \<Rightarrow> jsval \<times> service_call list" where
  "upload_step s file n b =
     (case file of
        None \<Rightarrow> (JNull, [])
      | Some f \<Rightarrow>
          if \<not> blob_client s then (JNull, [])
          else (case b of
                  Returned url \<Rightarrow> (JStr url, [BlobUpload n (originalname f)])
                | Thrown e \<Rightarrow> (JNull, [BlobUpload n (originalname f)])))"

text \<open>
  The handler. \<open>tm\<close> is the message of a TypeError thrown on the way, \<open>v\<close> what Azure
  Vision answers if it is called, \<open>b\<close> what the blob storage answers if it is called.
\<close>

definition vision_analyze ::
  "server \<Rightarrow> (rat \<Rightarrow> string) \<Rightarrow> (jsval \<Rightarrow> nat option) \<Rightarrow> string \<Rightarrow> string \<Rightarrow>
     vision_reply \<Rightarrow> string service_reply \<Rightarrow> upload_file option \<Rightarrow> jsval \<Rightarrow> outcome" where
  "vision_analyze s ns decode now tm v b file req_body =
     (let dev = (env s ''NODE_ENV'' = Some ''development'') in
      case vision_input decode file req_body of
        None \<Rightarrow> \<lparr>reply = analysis_failed dev (JStr tm), calls = [], state = s\<rparr>
      | Some (Inl early) \<Rightarrow> \<lparr>reply = early, calls = [], state = s\<rparr>
      | Some (Inr (n, features, language)) \<Rightarrow>
          if n = 0 then
            \<lparr>reply = error_response 400 ''Invalid image data''
                       ''Image buffer is empty or corrupted'',
             calls = [], state = s\<rparr>
          else if n > 20 * 1024 * 1024 then
            \<lparr>reply = error_response 400 ''Image too large''
                       (''Image size ('' @ ns (of_nat ((n + 512) div 1024)) @
                        ''KB) exceeds the 20MB limit''),
             calls = [], state = s\<rparr>
          else if env s ''VISION_ENDPOINT'' \<in> {None, Some []} \<or>
                  env s ''VISION_API_KEY'' \<in> {None, Some []} then
            \<lparr>reply = error_response 503 ''Vision service unavailable''
                       ''Azure Vision service is not configured'',
             calls = [], state = s\<rparr>
          else
            (let call = VisionAnalyze (intercalate '','' features) language n in
             case v of
               VisionFailure \<Rightarrow>
                 \<lparr>reply = analysis_failed dev (JStr tm), calls = [call], state = s\<rparr>
             | VisionHttpError code dat \<Rightarrow>
                 \<lparr>reply = analysis_rejected dev code dat, calls = [call], state = s\<rparr>
             | VisionData result \<Rightarrow>
                 if nullish result then
                   \<lparr>reply = analysis_failed dev (JStr tm), calls = [call], state = s\<rparr>
                 else
                   (let (imageUrl, uploads) = upload_step s file n b in
                    case analysisResponse ns now imageUrl result of
                      None \<Rightarrow>
                        \<lparr>reply = analysis_failed dev (JStr tm),
                         calls = call # uploads, state = s\<rparr>
                    | Some res \<Rightarrow>
                        \<lparr>reply = \<lparr>status = 200, body = res\<rparr>,
                         calls = call # uploads, state = s\<rparr>)))"

subsection \<open>The middleware in front of the route (index.js)\<close>

text \<open>
  A request as it reaches \<open>/api/vision\<close>: its content type
  (\<open>req.headers['content-type'] || ''\<close>), the file part of a multipart body if there is
  one (the model has no requests with several file parts), the body (the parsed JSON, or
  the text fields of a multipart body), and the \<open>path\<close> and \<open>id\<close> that the error handler
  reports.
\<close>

record http_request =
  content_type :: string
  file_part :: "upload_file option"
  req_body :: jsval
  req_path :: string
  req_id :: jsval

fun starts_with :: "string \<Rightarrow> string \<Rightarrow> bool" where
  "starts_with s p = (take (length p) s = p)"

fun includes_str :: "string \<Rightarrow> string \<Rightarrow> bool" where
  "includes_str [] p = (p = [])"
| "includes_str (c # cs) p = (starts_with (c # cs) p \<or> includes_str cs p)"

text \<open>
  multer is a library; this is its contract for \<open>upload.single('image')\<close> with the options
  of index.js: a file in another field is refused with the code \<open>LIMIT_UNEXPECTED_FILE\<close>,
  then the \<open>fileFilter\<close> refuses a mime type that does not start with \<open>image/\<close> with a plain
  \<open>Error\<close>, then a file of more than \<open>fileSize\<close> bytes is refused with the code
  \<open>LIMIT_FILE_SIZE\<close>. A refusal goes to \<open>next(err)\<close>, and so to the global error handler.
\<close>

datatype upload_result = Accepted "upload_file option" | Refused js_error

definition fileSize :: nat where
  "fileSize = 10 * 1024 * 1024"

definition fileFilter :: "upload_file \<Rightarrow> bool" where
  "fileFilter f = starts_with (mimetype f) ''image/''"

definition multer_error :: "string \<Rightarrow> string \<Rightarrow> js_error" where
  "multer_error code message =
     \<lparr>err_name = JStr ''MulterError'', err_code = JStr code, err_type = JUndef,
      err_message = JStr message, err_stack = JUndef, err_details = JUndef\<rparr>"

definition filter_error :: js_error where
  "filter_error =
     \<lparr>err_name = JStr ''Error'', err_code = JUndef, err_type = JUndef,
      err_message = JStr ''Only image files are allowed!'', err_stack = JUndef,
      err_details = JUndef\<rparr>"

definition upload_single :: "upload_file option \<Rightarrow> upload_result" where
  "upload_single part =
     (case part of
        None \<Rightarrow> Accepted None
      | Some f \<Rightarrow>
          if fieldname f \<noteq> ''image'' then
            Refused (multer_error ''LIMIT_UNEXPECTED_FILE'' ''Unexpected field'')
          else if \<not> fileFilter f then Refused filter_error
          else if file_size f > fileSize then
            Refused (multer_error ''LIMIT_FILE_SIZE'' ''File too large'')
          else Accepted (Some f))"

definition conditionalUpload :: "http_request \<Rightarrow> upload_result" where
  "conditionalUpload req =
     (if includes_str (content_type req) ''multipart/form-data'' then
        upload_single (file_part req)
      else Accepted None)"

text \<open>
  \<open>app.use('/api/vision', conditionalUpload, visionRoutes)\<close> for a POST of \<open>/analyze\<close>,
  with \<open>app.use(errorHandler)\<close> behind it. The route has no middleware of its own:
  \<open>validateImageAnalysisRequest\<close> is imported by routes/vision.js and not used.
\<close>

definition post_vision_analyze ::
  "server \<Rightarrow> (rat \<Rightarrow> string) \<Rightarrow> (jsval \<Rightarrow> nat option) \<Rightarrow> string \<Rightarrow> string \<Rightarrow>
     vision_reply \<Rightarrow> string service_reply \<Rightarrow> http_request \<Rightarrow> outcome" where
  "post_vision_analyze s ns decode now tm v b req =
     (case conditionalUpload req of
        Refused err \<Rightarrow>
          \<lparr>reply = errorHandler (env s ''NODE_ENV'') now (req_path req) (req_id req) err,
           calls = [], state = s\<rparr>
      | Accepted file \<Rightarrow> vision_analyze s ns decode now tm v b file (req_body req))"

text \<open>The calls of a handler that went to Azure Vision, and those to blob storage.\<close>

definition vision_calls :: "service_call list \<Rightarrow> service_call list" where
  "vision_calls cs = filter (\<lambda>c. case c of VisionAnalyze f l n \<Rightarrow> True | _ \<Rightarrow> False) cs"

definition blob_calls :: "service_call list \<Rightarrow> service_call list" where
  "blob_calls cs = filter (\<lambda>c. case c of BlobUpload n name \<Rightarrow> True | _ \<Rightarrow> False) cs"

text \<open>
  Sample requests: a base64 JSON request that asks for a feature \<open>Bogus\<close>; multipart
  requests with a file that is too large, that is no image, and that is fine. For the
  examples, every image decodes to 1000 bytes.
\<close>

definition decode_sample :: "jsval \<Rightarrow> nat option" where
  "decode_sample v = (case v of JStr s \<Rightarrow> Some 1000 | _ \<Rightarrow> None)"

definition bogus_request :: http_request where
  "bogus_request =
     \<lparr>content_type = ''application/json'', file_part = None,
      req_body = JObj [(''image'', JStr ''aGVsbG8=''), (''features'', JStr ''Bogus'')],
      req_path = ''/analyze'', req_id = JUndef\<rparr>"

definition photo :: "string \<Rightarrow> nat \<Rightarrow> upload_file" where
  "photo mime n =
     \<lparr>fieldname = ''image'', originalname = ''photo.jpg'', mimetype = mime, file_size = n\<rparr>"

definition multipart_request :: "upload_file \<Rightarrow> http_request" where
  "multipart_request f =
     \<lparr>content_type = ''multipart/form-data; boundary=x'', file_part = Some f,
      req_body = JObj [], req_path = ''/analyze'', req_id = JUndef\<rparr>"

definition base64_request :: http_request where
  "base64_request =
     \<lparr>content_type = ''application/json'', file_part = None,
      req_body = JObj [(''image'', JStr ''aGVsbG8='')],
      req_path = ''/analyze'', req_id = JUndef\<rparr>"

section \<open>Enhanced analysis (services/enhancedVisionService.js)\<close>

text \<open>\<open>v?.map(f) || []\<close> where \<open>f\<close> cannot throw.\<close>

definition map_or_empty :: "(jsval \<Rightarrow> jsval) \<Rightarrow> jsval \<Rightarrow> jsval list option" where
  "map_or_empty f v =
     (if nullish v then Some [] else do { xs \<leftarrow> as_array v; Some (map f xs) })"

text \<open>
  \<open>colorsComposition?.split(',').map(c => c.trim()).slice(0, 3) || []\<close>.
\<close>

definition dominant_colors :: "jsval \<Rightarrow> jsval option" where
  "dominant_colors v =
     (if nullish v then Some (JArr [])
      else do { s \<leftarrow> as_string v; Some (JArr (take 3 (map (\<lambda>c. JStr (trim c)) (split_comma s)))) })"

text \<open>
  What \<open>analyzeImageWithGPT4o\<close> returns, given the parsed JSON answer of the model
  (\<open>analysisResult\<close>) and the \<open>usage\<close> of the OpenAI response. The log line before the
  \<open>return\<close> reads \<open>analysisResult.confidence\<close>, so an answer \<open>null\<close> throws there.
\<close>

definition analyzeImageWithGPT4o :: "jsval \<Rightarrow> jsval \<Rightarrow> jsval option" where
  "analyzeImageWithGPT4o usage analysisResult = do {
     confidence \<leftarrow> get_prop analysisResult ''confidence'';
     mainDescription \<leftarrow> get_prop analysisResult ''mainDescription'';
     objs \<leftarrow> get_prop analysisResult ''objects'';
     acts \<leftarrow> get_prop analysisResult ''activities'';
     objects \<leftarrow> map_or_empty (\<lambda>obj. JObj
         [(''object'', obj), (''confidence'', JNum (85 / 100)),
          (''rectangle'', JObj [(''x'', JNum 0), (''y'', JNum 0),
                               (''w'', JNum 100), (''h'', JNum 100)])]) objs;
     object_tags \<leftarrow> map_or_empty (\<lambda>obj. JObj
         [(''name'', obj), (''confidence'', JNum (85 / 100))]) objs;
     activity_tags \<leftarrow> map_or_empty (\<lambda>activity. JObj
         [(''name'', activity), (''confidence'', JNum (8 / 10))]) acts;
     textContent \<leftarrow> get_prop analysisResult ''textContent'';
     colorsComposition \<leftarrow> get_prop analysisResult ''colorsComposition'';
     dominantColors \<leftarrow> dominant_colors colorsComposition;
     sceneContext \<leftarrow> get_prop analysisResult ''sceneContext'';
     moodAtmosphere \<leftarrow> get_prop analysisResult ''moodAtmosphere'';
     interestingDetails \<leftarrow> get_prop analysisResult ''interestingDetails'';
     Some (JObj
       [(''enhanced'', JBool True),
        (''model'', JStr ''gpt-4o''),
        (''analysis'', analysisResult),
        (''caption'', JObj [(''text'', mainDescription),
                           (''confidence'', js_or confidence (JNum (9 / 10)))]),
        (''description'', JObj [(''captions'', JArr [JObj
                           [(''text'', mainDescription),
                            (''confidence'', js_or confidence (JNum (9 / 10)))]])]),
        (''objects'', JArr objects),
        (''tags'', JArr (object_tags @ activity_tags)),
        (''text'', if truthy textContent then JArr [textContent] else JArr []),
        (''color'', JObj [(''dominantColors'', dominantColors)]),
        (''sceneContext'', sceneContext),
        (''activities'', js_or acts (JArr [])),
        (''moodAtmosphere'', moodAtmosphere),
        (''colorsComposition'', colorsComposition),
        (''interestingDetails'', js_or interestingDetails (JArr [])),
        (''usage'', usage)])
   }"

subsection \<open>Comparing the shapes of two values\<close>

text \<open>
  \<open>has_shape c e\<close>: every field of \<open>c\<close> is a field of \<open>e\<close>, with the same nesting. For an
  object \<open>c\<close>, \<open>e\<close> is an object with at least the keys of \<open>c\<close>, and the values under each
  key compare in turn; for an array \<open>c\<close>, \<open>e\<close> is an array and every element of \<open>e\<close> has
  the shape of every element of \<open>c\<close>; for anything else, \<open>e\<close> is neither object nor array,
  unless \<open>c\<close> is \<open>null\<close> or \<open>undefined\<close>, which stand for an absent value of any shape.
\<close>

fun has_shape :: "jsval \<Rightarrow> jsval \<Rightarrow> bool" where
  "has_shape (JObj kvs) e =
     (case e of
        JObj es \<Rightarrow>
          list_all (\<lambda>kv. case map_of es (fst kv) of
                           None \<Rightarrow> False
                         | Some w \<Rightarrow> has_shape (snd kv) w) kvs
      | _ \<Rightarrow> False)"
| "has_shape (JArr xs) e =
     (case e of JArr ys \<Rightarrow> list_all (\<lambda>x. list_all (has_shape x) ys) xs | _ \<Rightarrow> False)"
| "has_shape JNull e = True"
| "has_shape JUndef e = True"
| "has_shape c e = (case e of JObj es \<Rightarrow> False | JArr ys \<Rightarrow> False | _ \<Rightarrow> True)"

definition obj_keys :: "jsval \<Rightarrow> string list" where
  "obj_keys v = (case v of JObj kvs \<Rightarrow> map fst kvs | _ \<Rightarrow> [])"

definition elements :: "jsval \<Rightarrow> jsval list" where
  "elements v = (case v of JArr xs \<Rightarrow> xs | _ \<Rightarrow> [])"

definition is_array :: "jsval \<Rightarrow> bool" where
  "is_array v = (case v of JArr xs \<Rightarrow> True | _ \<Rightarrow> False)"

text \<open>
  An image of a cat, as the two services may describe it: the answer of Azure Vision and
  the JSON answer of the language model.
\<close>

definition box :: jsval where
  "box = JObj [(''x'', JNum 10), (''y'', JNum 20), (''w'', JNum 30), (''h'', JNum 40)]"

definition vision_answer :: jsval where
  "vision_answer = JObj
     [(''captionResult'', JObj [(''text'', JStr ''a cat on a sofa''), (''confidence'', JNum (9 / 10))]),
      (''objectsResult'', JObj [(''values'', JArr
         [JObj [(''boundingBox'', box),
                (''tags'', JArr [JObj [(''name'', JStr ''cat''), (''confidence'', JNum (8 / 10))]])]])]),
      (''tagsResult'', JObj [(''values'', JArr
         [JObj [(''name'', JStr ''cat''), (''confidence'', JNum (9 / 10))]])]),
      (''readResult'', JObj [(''blocks'', JArr
         [JObj [(''lines'', JArr [JObj [(''text'', JStr ''HOME'')], JObj [(''text'', JStr ''SWEET'')]])]])])]"

definition classic_cat :: jsval where
  "classic_cat = JObj
     [(''success'', JBool True),
      (''timestamp'', JStr ''12:00''),
      (''imageUrl'', JNull),
      (''analysis'', JObj
         [(''caption'', JStr ''a cat on a sofa''),
          (''confidence'', JNum (9 / 10)),
          (''denseCaptions'', JArr []),
          (''objects'', JArr [JObj [(''name'', JStr ''cat''), (''confidence'', JNum (8 / 10)),
                                   (''boundingBox'', box)]]),
          (''people'', JArr []),
          (''tags'', JArr [JObj [(''name'', JStr ''cat''), (''confidence'', JNum (9 / 10))]]),
          (''smartCrops'', JArr []),
          (''text'', JStr ''HOME\<newline>SWEET'')])]"

definition model_answer :: jsval where
  "model_answer = JObj
     [(''mainDescription'', JStr ''A cat rests on a sofa.''),
      (''objects'', JArr [JStr ''cat'', JStr ''sofa'']),
      (''sceneContext'', JStr ''indoors''),
      (''activities'', JArr [JStr ''resting'']),
      (''moodAtmosphere'', JStr ''calm''),
      (''textContent'', JStr ''HOME SWEET''),
      (''colorsComposition'', JStr ''grey, warm beige , soft light, low contrast''),
      (''interestingDetails'', JArr []),
      (''confidence'', JNum (95 / 100))]"

definition placeholder :: jsval where
  "placeholder = JObj [(''x'', JNum 0), (''y'', JNum 0), (''w'', JNum 100), (''h'', JNum 100)]"

definition enhanced_cat :: jsval where
  "enhanced_cat = JObj
     [(''enhanced'', JBool True),
      (''model'', JStr ''gpt-4o''),
      (''analysis'', model_answer),
      (''caption'', JObj [(''text'', JStr ''A cat rests on a sofa.''),
                         (''confidence'', JNum (95 / 100))]),
      (''description'', JObj [(''captions'', JArr [JObj
          [(''text'', JStr ''A cat rests on a sofa.''), (''confidence'', JNum (95 / 100))]])]),
      (''objects'', JArr
          [JObj [(''object'', JStr ''cat''), (''confidence'', JNum (85 / 100)),
                 (''rectangle'', placeholder)],
           JObj [(''object'', JStr ''sofa''), (''confidence'', JNum (85 / 100)),
                 (''rectangle'', placeholder)]]),
      (''tags'', JArr
          [JObj [(''name'', JStr ''cat''), (''confidence'', JNum (85 / 100))],
           JObj [(''name'', JStr ''sofa''), (''confidence'', JNum (85 / 100))],
           JObj [(''name'', JStr ''resting''), (''confidence'', JNum (8 / 10))]]),
      (''text'', JArr [JStr ''HOME SWEET'']),
      (''color'', JObj [(''dominantColors'',
          JArr [JStr ''grey'', JStr ''warm beige'', JStr ''soft light''])]),
      (''sceneContext'', JStr ''indoors''),
      (''activities'', JArr [JStr ''resting'']),
      (''moodAtmosphere'', JStr ''calm''),
      (''colorsComposition'', JStr ''grey, warm beige , soft light, low contrast''),
      (''interestingDetails'', JArr []),
      (''usage'', JUndef)]"

section \<open>Translation routes (routes/translation.js, middleware/validation.js)\<close>

subsection \<open>Request validation\<close>

text \<open>
  What \<open>express.json()\<close> leaves in \<open>req.body\<close>: an object, empty if the request has no JSON
  body, or an array (the parser is strict and takes nothing else).
\<close>

datatype parsed_body = Fields "(string \<times> jsval) list" | Items "jsval list"

fun body_value :: "parsed_body \<Rightarrow> jsval" where
  "body_value (Fields kvs) = JObj kvs"
| "body_value (Items xs) = JArr xs"

definition field :: "parsed_body \<Rightarrow> string \<Rightarrow> jsval" where
  "field b k = opt_prop (body_value b) k"

definition supported_codes :: "string list" where
  "supported_codes =
     [''ar'', ''zh'', ''zh-Hant'', ''en'', ''fr'', ''de'', ''hi'', ''it'',
      ''ja'', ''ko'', ''pt'', ''ru'', ''es'', ''th'', ''tr'', ''vi'']"

text \<open>
  Joi is a library; these are the rules of the schema of \<open>validateTranslationRequest\<close> as
  Joi documents them. \<open>Joi.string().required().min(1).max(10000)\<close> takes a string that is
  not empty and has at most 10000 characters; \<open>Joi.string().required().valid(...)\<close> takes
  the listed strings only; \<open>optional()\<close> takes \<open>undefined\<close> as well. \<open>Joi.object({...})\<close>
  takes an object and refuses keys that the schema does not name.
\<close>

definition text_rule :: "jsval \<Rightarrow> bool" where
  "text_rule v = (case v of JStr s \<Rightarrow> s \<noteq> [] \<and> 1 \<le> length s \<and> length s \<le> 10000 | _ \<Rightarrow> False)"

definition targetLanguage_rule :: "jsval \<Rightarrow> bool" where
  "targetLanguage_rule v \<longleftrightarrow> v \<in> set (map JStr supported_codes)"

definition sourceLanguage_rule :: "jsval \<Rightarrow> bool" where
  "sourceLanguage_rule v \<longleftrightarrow> v = JUndef \<or> v \<in> set (map JStr (''auto'' # supported_codes))"

definition translation_schema :: "parsed_body \<Rightarrow> bool" where
  "translation_schema b =
     (case b of
        Items xs \<Rightarrow> False
      | Fields kvs \<Rightarrow>
          text_rule (own kvs ''text'') \<and>
          targetLanguage_rule (own kvs ''targetLanguage'') \<and>
          sourceLanguage_rule (own kvs ''sourceLanguage'') \<and>
          list_all (\<lambda>k. k \<in> set [''text'', ''targetLanguage'', ''sourceLanguage''])
            (map fst kvs))"

text \<open>
  The middleware: \<open>None\<close> is \<open>next()\<close>. \<open>jm\<close> gives the wording of Joi's first error
  (\<open>error.details[0].message\<close>).
\<close>

definition validateTranslationRequest ::
  "(parsed_body \<Rightarrow> string) \<Rightarrow> parsed_body \<Rightarrow> response option" where
  "validateTranslationRequest jm b =
     (if translation_schema b then None
      else Some (json_response 400
             [(''error'', JStr ''Validation failed''),
              (''message'', JStr (jm b)),
              (''supportedLanguages'', JArr (map JStr supported_codes))]))"

subsection \<open>POST /api/translation/translate\<close>

definition translation_failed :: "bool \<Rightarrow> jsval \<Rightarrow> response" where
  "translation_failed dev message =
     json_response 500
       [(''error'', JStr ''Translation failed''),
        (''message'', JStr ''Failed to translate the text. Please try again.''),
        (''details'', if dev then message else JUndef)]"

text \<open>The handler up to the call: an early response or the options of the call.\<close>

definition translate_prepare :: "server \<Rightarrow> jsval \<Rightarrow> (response + jsval) option" where
  "translate_prepare s rb = do {
     text \<leftarrow> get_prop rb ''text'';
     targetLanguage \<leftarrow> get_prop rb ''targetLanguage'';
     sourceLanguage \<leftarrow> get_prop rb ''sourceLanguage'';
     if \<not> truthy text \<or> \<not> truthy targetLanguage then
       Some (Inl (error_response 400 ''Missing required parameters''
                    ''Both text and targetLanguage are required''))
     else if \<not> translator_client s then
       Some (Inl (error_response 503 ''Translation service unavailable''
                    ''Azure Translator service is not configured''))
     else
       Some (Inr (JObj ([(''body'', JArr [JObj [(''text'', text)]]),
                         (''to'', JArr [targetLanguage])] @
                        (if truthy sourceLanguage \<and> sourceLanguage \<noteq> JStr ''auto'' then
                           [(''from'', sourceLanguage)]
                         else []))))
   }"

text \<open>\<open>translation.translations?.slice(1)?.map(t => t.text) || []\<close>.\<close>

definition alternatives :: "jsval \<Rightarrow> jsval option" where
  "alternatives translations =
     (if nullish translations then Some (JArr [])
      else do {
        xs \<leftarrow> as_array translations;
        ts \<leftarrow> those (map (\<lambda>t. get_prop t ''text'') (tl xs));
        Some (JArr ts)
      })"

text \<open>The handler after the call, given what the Translator returned.\<close>

definition translate_finish :: "string \<Rightarrow> jsval \<Rightarrow> jsval \<Rightarrow> jsval option" where
  "translate_finish now rb result = do {
     body \<leftarrow> get_prop result ''body'';
     empty \<leftarrow> (if truthy body then do { l \<leftarrow> get_prop body ''length''; Some (l = JNum 0) }
               else Some True);
     if empty then None
     else do {
       translation \<leftarrow> index0 body;
       translations \<leftarrow> get_prop translation ''translations'';
       own_text \<leftarrow> get_prop translation ''text'';
       detected \<leftarrow> get_prop translation ''detectedLanguage'';
       alts \<leftarrow> alternatives translations;
       Some (JObj
         [(''success'', JBool True),
          (''timestamp'', JStr now),
          (''originalText'', opt_prop rb ''text''),
          (''translatedText'',
             js_or (js_or (opt_prop (opt_index0 translations) ''text'') own_text)
                   (JStr ''Translation not available'')),
          (''sourceLanguage'',
             js_or (js_or (opt_prop detected ''language'') (opt_prop rb ''sourceLanguage''))
                   (JStr ''unknown'')),
          (''targetLanguage'', opt_prop rb ''targetLanguage''),
          (''confidence'', js_or (opt_prop detected ''score'') JNull),
          (''alternatives'', alts)])
     }
   }"

text \<open>
  The handler: \<open>tm\<close> is the message of an error thrown on the way, \<open>r\<close> what the
  Translator answers if it is called.
\<close>

definition translate_handler ::
  "server \<Rightarrow> string \<Rightarrow> string \<Rightarrow> jsval service_reply \<Rightarrow> jsval \<Rightarrow> outcome" where
  "translate_handler s now tm r rb =
     (let dev = (env s ''NODE_ENV'' = Some ''development'') in
      case translate_prepare s rb of
        None \<Rightarrow> \<lparr>reply = translation_failed dev (JStr tm), calls = [], state = s\<rparr>
      | Some (Inl early) \<Rightarrow> \<lparr>reply = early, calls = [], state = s\<rparr>
      | Some (Inr options) \<Rightarrow>
          \<lparr>reply = (case r of
                      Thrown e \<Rightarrow> translation_failed dev (err_message e)
                    | Returned result \<Rightarrow>
                        (case translate_finish now rb result of
                           None \<Rightarrow> translation_failed dev (JStr tm)
                         | Some res \<Rightarrow> \<lparr>status = 200, body = res\<rparr>)),
           calls = [TranslatorTranslate options], state = s\<rparr>)"

text \<open>\<open>router.post('/translate', validateTranslationRequest, async (req, res) => ...)\<close>.\<close>

definition post_translate ::
  "server \<Rightarrow> (parsed_body \<Rightarrow> string) \<Rightarrow> string \<Rightarrow> string \<Rightarrow> jsval service_reply \<Rightarrow>
     parsed_body \<Rightarrow> outcome" where
  "post_translate s jm now tm r b =
     (case validateTranslationRequest jm b of
        Some refusal \<Rightarrow> \<lparr>reply = refusal, calls = [], state = s\<rparr>
      | None \<Rightarrow> translate_handler s now tm r (body_value b))"





subsection \<open>GET /api/translation/languages\<close>

definition supportedLanguages :: "(string \<times> string) list" where
  "supportedLanguages =
     [(''ar'', ''Arabic''),
      (''zh'', ''Chinese (Simplified)''),
      (''zh-Hant'', ''Chinese (Traditional)''),
      (''en'', ''English''),
      (''fr'', ''French''),
      (''de'', ''German''),
      (''hi'', ''Hindi''),
      (''it'', ''Italian''),
      (''ja'', ''Japanese''),
      (''ko'', ''Korean''),
      (''pt'', ''Portuguese''),
      (''ru'', ''Russian''),
      (''es'', ''Spanish''),
      (''th'', ''Thai''),
      (''tr'', ''Turkish''),
      (''vi'', ''Vietnamese'')]"

text \<open>\<open>azureConfig.translator.defaultTargetLanguage\<close> (config/azure.js).\<close>

definition defaultTargetLanguage :: string where
  "defaultTargetLanguage = ''en''"

text \<open>The handler registered first: it answers from the table above.\<close>

definition languages_handler :: "server \<Rightarrow> outcome" where
  "languages_handler s =
     \<lparr>reply = json_response 200
        [(''supportedLanguages'', JObj (map (\<lambda>(c, n). (c, JStr n)) supportedLanguages)),
         (''defaultTargetLanguage'', JStr defaultTargetLanguage),
         (''autoDetectionSupported'', JBool True)],
      calls = [], state = s\<rparr>"

definition languages_failed :: "bool \<Rightarrow> jsval \<Rightarrow> response" where
  "languages_failed dev message =
     json_response 500
       [(''error'', JStr ''Failed to get languages''),
        (''message'', JStr ''Failed to retrieve supported languages. Please try again.''),
        (''details'', if dev then message else JUndef)]"

text \<open>
  The handler registered last, for the same method and path: it asks the Translator.
\<close>

definition languages_service_handler ::
  "server \<Rightarrow> string \<Rightarrow> string \<Rightarrow> jsval service_reply \<Rightarrow> outcome" where
  "languages_service_handler s now tm r =
     (let dev = (env s ''NODE_ENV'' = Some ''development'') in
      if \<not> translator_client s then
        \<lparr>reply = error_response 503 ''Translation service unavailable''
                   ''Azure Translator service is not configured'',
         calls = [], state = s\<rparr>
      else
        \<lparr>reply = (case r of
                    Thrown e \<Rightarrow> languages_failed dev (err_message e)
                  | Returned result \<Rightarrow>
                      (case get_prop result ''body'' of
                         None \<Rightarrow> languages_failed dev (JStr tm)
                       | Some languages \<Rightarrow>
                           json_response 200
                             [(''success'', JBool True), (''timestamp'', JStr now),
                              (''languages'', languages)])),
         calls = [TranslatorLanguages], state = s\<rparr>)"

subsection \<open>The router\<close>

text \<open>
  The routes of the file in the order of their registration. Express goes through them in
  that order and runs the handlers of the first one whose method and path match the
  request; it goes on to a later one only if a handler calls \<open>next()\<close>, which none of
  these does once it has answered. How a path pattern matches a request path is the
  parameter \<open>matches\<close>.
\<close>

datatype http_method = GET | POST

datatype translation_route = Translate | Detect | Languages | Batch | LanguagesFromService

definition translation_routes :: "(http_method \<times> string \<times> translation_route) list" where
  "translation_routes =
     [(POST, ''/translate'', Translate),
      (POST, ''/detect'', Detect),
      (GET, ''/languages'', Languages),
      (POST, ''/batch'', Batch),
      (GET, ''/languages'', LanguagesFromService)]"

fun first_match ::
  "(string \<Rightarrow> string \<Rightarrow> bool) \<Rightarrow> http_method \<Rightarrow> string \<Rightarrow>
     (http_method \<times> string \<times> translation_route) list \<Rightarrow> translation_route option" where
  "first_match matches m p [] = None"
| "first_match matches m p ((m', pattern, r) # rs) =
     (if m' = m \<and> matches pattern p then Some r else first_match matches m p rs)"

definition route_for ::
  "(string \<Rightarrow> string \<Rightarrow> bool) \<Rightarrow> http_method \<Rightarrow> string \<Rightarrow> translation_route option" where
  "route_for matches m p = first_match matches m p translation_routes"

text \<open>The 404 handler of index.js, for a request that no route takes.\<close>

definition not_found :: "string \<Rightarrow> response" where
  "not_found originalUrl =
     error_response 404 ''Not Found'' (''Route '' @ originalUrl @ '' not found'')"

text \<open>
  A request to the router. The handlers of \<open>/detect\<close> and \<open>/batch\<close> are the parameters
  \<open>detect\<close> and \<open>batch\<close>; \<open>rt\<close> and \<open>rl\<close> are what the Translator answers to a translation
  and to a request for its languages.
\<close>

definition translation_router ::
  "(string \<Rightarrow> string \<Rightarrow> bool) \<Rightarrow> (server \<Rightarrow> parsed_body \<Rightarrow> outcome) \<Rightarrow>
     (server \<Rightarrow> parsed_body \<Rightarrow> outcome) \<Rightarrow> server \<Rightarrow> (parsed_body \<Rightarrow> string) \<Rightarrow> string \<Rightarrow>
     string \<Rightarrow> jsval service_reply \<Rightarrow> jsval service_reply \<Rightarrow> http_method \<Rightarrow> string \<Rightarrow>
     parsed_body \<Rightarrow> outcome" where
  "translation_router matches detect batch s jm now tm rt rl m p b =
     (case route_for matches m p of
        None \<Rightarrow> \<lparr>reply = not_found p, calls = [], state = s\<rparr>
      | Some Translate \<Rightarrow> post_translate s jm now tm rt b
      | Some Detect \<Rightarrow> detect s b
      | Some Languages \<Rightarrow> languages_handler s
      | Some Batch \<Rightarrow> batch s b
      | Some LanguagesFromService \<Rightarrow> languages_service_handler s now tm rl)"

definition languages_body :: jsval where
  "languages_body = JObj
     [(''supportedLanguages'', JObj (map (\<lambda>(c, n). (c, JStr n)) supportedLanguages)),
      (''defaultTargetLanguage'', JStr ''en''),
      (''autoDetectionSupported'', JBool True)]"

text \<open>Sample requests and handlers for the concrete evaluations.\<close>

definition joi_message :: "parsed_body \<Rightarrow> string" where
  "joi_message b = ''invalid''"




definition no_handler :: "server \<Rightarrow> parsed_body \<Rightarrow> outcome" where
  "no_handler s b = \<lparr>reply = not_found [], calls = [], state = s\<rparr>"

definition same_path :: "string \<Rightarrow> string \<Rightarrow> bool" where
  "same_path pattern p \<longleftrightarrow> pattern = p"

section \<open>Properties of the error handler\<close>

lemma errorHandler_status:
  "status (errorHandler node_env now path rid err) =
     ei_status (network_error err (azure_error err (specific_error err)))"
  by (simp add: errorHandler_def Let_def)

lemma errorHandler_body_error:
  "body_error (errorHandler node_env now path rid err) =
     JStr (ei_message (network_error err (azure_error err (specific_error err))))"
  by (simp add: errorHandler_def body_error_def Let_def)

lemma unrecognized_default:
  assumes "unrecognized err"
  shows "network_error err (azure_error err (specific_error err)) =
           mk_error 500 ''Internal server error''"
  using assms
  by (simp add: unrecognized_def recognized_names_def recognized_types_def
      recognized_codes_def network_error_def azure_error_def specific_error_def)

text \<open>
  C7. Whatever else the error carries, a \<open>code\<close> of \<open>Unauthorized\<close>, \<open>Forbidden\<close>,
  \<open>NotFound\<close>, \<open>TooManyRequests\<close> or \<open>ServiceUnavailable\<close> is answered with status 401, 403,
  404, 429 or 503; an error matching no recognized name, code or type is answered with
  status 500 and the message \<open>Internal server error\<close>.
\<close>

theorem errorHandler_code_mapping:
  "(err_code err = JStr ''Unauthorized'' \<longrightarrow>
      status (errorHandler node_env now path rid err) = 401) \<and>
   (err_code err = JStr ''Forbidden'' \<longrightarrow>
      status (errorHandler node_env now path rid err) = 403) \<and>
   (err_code err = JStr ''NotFound'' \<longrightarrow>
      status (errorHandler node_env now path rid err) = 404) \<and>
   (err_code err = JStr ''TooManyRequests'' \<longrightarrow>
      status (errorHandler node_env now path rid err) = 429) \<and>
   (err_code err = JStr ''ServiceUnavailable'' \<longrightarrow>
      status (errorHandler node_env now path rid err) = 503) \<and>
   (unrecognized err \<longrightarrow>
      status (errorHandler node_env now path rid err) = 500 \<and>
      body_error (errorHandler node_env now path rid err) = JStr ''Internal server error'')"
proof -
  have code: "status (errorHandler node_env now path rid err) = n"
    if "err_code err = JStr c" "azure_error err (specific_error err) = mk_error n m"
       "c \<noteq> ''ECONNREFUSED''" "c \<noteq> ''ETIMEDOUT''" for c n m
    using that by (simp add: errorHandler_status network_error_def mk_error_def)
  have a: "err_code err = JStr ''Unauthorized'' \<Longrightarrow>
      status (errorHandler node_env now path rid err) = 401"
    by (rule code [where c = "''Unauthorized''"]) (simp_all add: azure_error_def)
  have b: "err_code err = JStr ''Forbidden'' \<Longrightarrow>
      status (errorHandler node_env now path rid err) = 403"
    by (rule code [where c = "''Forbidden''"]) (simp_all add: azure_error_def)
  have c: "err_code err = JStr ''NotFound'' \<Longrightarrow>
      status (errorHandler node_env now path rid err) = 404"
    by (rule code [where c = "''NotFound''"]) (simp_all add: azure_error_def)
  have d: "err_code err = JStr ''TooManyRequests'' \<Longrightarrow>
      status (errorHandler node_env now path rid err) = 429"
    by (rule code [where c = "''TooManyRequests''"]) (simp_all add: azure_error_def)
  have e: "err_code err = JStr ''ServiceUnavailable'' \<Longrightarrow>
      status (errorHandler node_env now path rid err) = 503"
    by (rule code [where c = "''ServiceUnavailable''"]) (simp_all add: azure_error_def)
  have f: "unrecognized err \<Longrightarrow>
      status (errorHandler node_env now path rid err) = 500 \<and>
      body_error (errorHandler node_env now path rid err) = JStr ''Internal server error''"
    by (simp add: errorHandler_status errorHandler_body_error unrecognized_default mk_error_def)
  from a b c d e f show ?thesis by blast
qed

theorem errorHandler_code_mapping_witness:
  "status (errorHandler None ''t'' ''/x'' JUndef (error_with_code (JStr ''Unauthorized''))) = 401 \<and>
   status (errorHandler None ''t'' ''/x'' JUndef (error_with_code (JStr ''Forbidden''))) = 403 \<and>
   status (errorHandler None ''t'' ''/x'' JUndef (error_with_code (JStr ''NotFound''))) = 404 \<and>
   status (errorHandler None ''t'' ''/x'' JUndef (error_with_code (JStr ''TooManyRequests''))) = 429 \<and>
   status (errorHandler None ''t'' ''/x'' JUndef (error_with_code (JStr ''ServiceUnavailable''))) = 503 \<and>
   unrecognized (error_with_code JUndef) \<and>
   status (errorHandler None ''t'' ''/x'' JUndef (error_with_code JUndef)) = 500 \<and>
   body_error (errorHandler None ''t'' ''/x'' JUndef (error_with_code JUndef)) =
     JStr ''Internal server error''"
proof -
  have u: "unrecognized (error_with_code JUndef)"
    by (simp add: unrecognized_def error_with_code_def recognized_names_def
        recognized_types_def recognized_codes_def)
  have c: "err_code (error_with_code x) = x" for x
    by (simp add: error_with_code_def)
  show ?thesis
    using u c
      errorHandler_code_mapping [of "error_with_code (JStr ''Unauthorized'')" None "''t''" "''/x''" JUndef]
      errorHandler_code_mapping [of "error_with_code (JStr ''Forbidden'')" None "''t''" "''/x''" JUndef]
      errorHandler_code_mapping [of "error_with_code (JStr ''NotFound'')" None "''t''" "''/x''" JUndef]
      errorHandler_code_mapping [of "error_with_code (JStr ''TooManyRequests'')" None "''t''" "''/x''" JUndef]
      errorHandler_code_mapping [of "error_with_code (JStr ''ServiceUnavailable'')" None "''t''" "''/x''" JUndef]
      errorHandler_code_mapping [of "error_with_code JUndef" None "''t''" "''/x''" JUndef]
    by simp
qed

section \<open>Properties of the chat context\<close>

lemma step_append:
  assumes "(if b then do { s \<leftarrow> f; Some (ctx @ s) } else Some ctx) = Some ctx'"
  shows "\<exists>t. (if b then f else Some []) = Some t \<and> ctx' = ctx @ t"
  using assms by (auto split: if_splits simp: bind_eq_Some_conv)

lemma those_filter_concat:
  assumes "\<forall>k \<in> set ks. (if P k then f k else Some []) = Some (t k)"
  shows "map_option concat (those (map f (filter P ks))) = Some (concat (map t ks))"
  using assms by (induction ks) (auto split: option.splits if_splits)

lemma opt_prop_eq: "get_prop r k = Some v \<Longrightarrow> opt_prop r k = v"
  by (simp add: opt_prop_def)

text \<open>
  C4 (as amended). Whenever \<open>buildAnalysisContext\<close> returns a string, that string is the
  concatenation, in the order caption, detailed captions, objects, people, tags, OCR text,
  color, of the sections of exactly those fields that are present (and non-empty for
  \<open>objects\<close>, \<open>people\<close>, \<open>tags\<close> and \<open>text\<close>).
\<close>

theorem buildAnalysisContext_sections:
  assumes "buildAnalysisContext ns sgt r = Some s"
  shows "present_sections_context ns sgt r = Some s"
proof -
  from assms obtain caption c1 description c2 objects ho c3 people hp c4 tags ht c5 ocr hx c6 color where
    g1: "get_prop r ''caption'' = Some caption" and
    s1: "(if truthy caption then do { s \<leftarrow> caption_text ns caption; Some ([] @ s) } else Some []) = Some c1" and
    g2: "get_prop r ''description'' = Some description" and
    s2: "(if truthy (opt_prop description ''captions'') then do { s \<leftarrow> captions_text ns (opt_prop description ''captions''); Some (c1 @ s) } else Some c1) = Some c2" and
    g3: "get_prop r ''objects'' = Some objects" and h3: "longer_than ns sgt objects 0 = Some ho" and
    s3: "(if ho then do { s \<leftarrow> objects_text ns objects; Some (c2 @ s) } else Some c2) = Some c3" and
    g4: "get_prop r ''people'' = Some people" and h4: "longer_than ns sgt people 0 = Some hp" and
    s4: "(if hp then do { s \<leftarrow> people_text ns people; Some (c3 @ s) } else Some c3) = Some c4" and
    g5: "get_prop r ''tags'' = Some tags" and h5: "longer_than ns sgt tags 0 = Some ht" and
    s5: "(if ht then do { s \<leftarrow> tags_text ns tags; Some (c4 @ s) } else Some c4) = Some c5" and
    g6: "get_prop r ''text'' = Some ocr" and h6: "longer_than ns sgt ocr 0 = Some hx" and
    s6: "(if hx then do { s \<leftarrow> ocr_text ns ocr; Some (c5 @ s) } else Some c5) = Some c6" and
    g7: "get_prop r ''color'' = Some color" and
    s7: "(if truthy color then do { s \<leftarrow> color_text ns color; Some (c6 @ s) } else Some c6) = Some s"
    unfolding buildAnalysisContext_def bind_eq_Some_conv by auto
  from step_append [OF s1] obtain t1 where
    t1: "(if truthy caption then caption_text ns caption else Some []) = Some t1" and c1: "c1 = t1" by auto
  from step_append [OF s2] obtain t2 where
    t2: "(if truthy (opt_prop description ''captions'') then captions_text ns (opt_prop description ''captions'') else Some []) = Some t2"
    and c2: "c2 = c1 @ t2" by auto
  from step_append [OF s3] obtain t3 where
    t3: "(if ho then objects_text ns objects else Some []) = Some t3" and c3: "c3 = c2 @ t3" by auto
  from step_append [OF s4] obtain t4 where
    t4: "(if hp then people_text ns people else Some []) = Some t4" and c4: "c4 = c3 @ t4" by auto
  from step_append [OF s5] obtain t5 where
    t5: "(if ht then tags_text ns tags else Some []) = Some t5" and c5: "c5 = c4 @ t5" by auto
  from step_append [OF s6] obtain t6 where
    t6: "(if hx then ocr_text ns ocr else Some []) = Some t6" and c6: "c6 = c5 @ t6" by auto
  from step_append [OF s7] obtain t7 where
    t7: "(if truthy color then color_text ns color else Some []) = Some t7" and c7: "s = c6 @ t7" by auto
  define t where "t k = (case k of Caption \<Rightarrow> t1 | DetailedCaptions \<Rightarrow> t2 | Objects \<Rightarrow> t3
      | People \<Rightarrow> t4 | Tags \<Rightarrow> t5 | OcrText \<Rightarrow> t6 | Color \<Rightarrow> t7)" for k
  have f: "opt_prop r ''caption'' = caption" "opt_prop r ''description'' = description"
    "opt_prop r ''objects'' = objects" "opt_prop r ''people'' = people"
    "opt_prop r ''tags'' = tags" "opt_prop r ''text'' = ocr" "opt_prop r ''color'' = color"
    using g1 g2 g3 g4 g5 g6 g7 by (simp_all add: opt_prop_eq)
  have "(if section_present ns sgt r k then section_text ns k (section_field r k) else Some []) = Some (t k)" for k
    using t1 t2 t3 t4 t5 t6 t7 h3 h4 h5 h6
    by (cases k) (auto simp add: section_present_def f t_def split: if_splits)
  then have "present_sections_context ns sgt r = Some (concat (map t section_order))"
    unfolding present_sections_context_def by (intro those_filter_concat) simp
  also have "concat (map t section_order) = s"
    by (simp add: section_order_def t_def c1 c2 c3 c4 c5 c6 c7)
  finally show ?thesis .
qed

theorem buildAnalysisContext_sections_witness:
  "buildAnalysisContext number_text never_greater full_results = Some full_context \<and>
   filter (section_present number_text never_greater full_results) section_order =
     section_order \<and>
   present_sections_context number_text never_greater full_results = Some full_context"
proof -
  have h: "buildAnalysisContext number_text never_greater full_results = Some full_context"
    by code_simp
  have p: "filter (section_present number_text never_greater full_results) section_order =
     section_order"
    by code_simp
  from h p buildAnalysisContext_sections [OF h] show ?thesis by simp
qed

text \<open>
  The routine does not return a string for every analysis results object: on objects in
  the shape of the classic response it throws, although the field is present and not
  empty.
\<close>

theorem buildAnalysisContext_throws:
  "section_present number_text never_greater classic_shaped_results Objects \<and>
   buildAnalysisContext number_text never_greater classic_shaped_results = None"
  by code_simp

section \<open>Properties of the suggestions\<close>

lemma object_question_is: "is_object_question (object_question n)"
  by (simp add: is_object_question_def object_question_def object_prefix_def object_suffix_def)

lemma fixed_not_object:
  "\<not> is_object_question ''What do you see in this image?''"
  "\<not> is_object_question ''Can you describe the main subject?''"
  "\<not> is_object_question ''What can you tell me about the people in the image?''"
  "\<not> is_object_question ''How many people are in the image and where are they?''"
  "\<not> is_object_question ''What does the text in the image say?''"
  "\<not> is_object_question ''Can you explain the meaning of the text?''"
  "\<not> is_object_question ''What are the dominant colors?''"
  "\<not> is_object_question ''How would you describe the composition?''"
  "\<not> is_object_question ''What's the setting or location?''"
  "\<not> is_object_question ''What might be happening in this scene?''"
  by (simp_all add: is_object_question_def object_prefix_def object_suffix_def
      relationship_question_def)

lemma object_not_fixed:
  "object_question n \<noteq> ''What do you see in this image?''"
  "object_question n \<noteq> ''Can you describe the main subject?''"
  "object_question n \<noteq> ''What can you tell me about the people in the image?''"
  "object_question n \<noteq> ''How many people are in the image and where are they?''"
  "object_question n \<noteq> ''What does the text in the image say?''"
  "object_question n \<noteq> ''Can you explain the meaning of the text?''"
  by (simp_all add: object_question_def object_prefix_def)

lemma longer_than_array:
  "longer_than ns sgt (JArr xs) n = Some (of_nat (length xs) > n)"
  by (simp add: longer_than_def)

lemma suggestions_shape:
  assumes "\<not> truthy (opt_prop r ''enhanced'')"
    and "generateQuestionSuggestions ns sgt r = Some l"
  shows "\<exists>n. l = standard_list ns sgt r n"
proof -
  from assms obtain enhanced analysis where
    e: "get_prop r ''enhanced'' = Some enhanced" "get_prop r ''analysis'' = Some analysis"
    by (auto simp: generateQuestionSuggestions_def bind_eq_Some_conv)
  with assms(1) have ne: "\<not> truthy enhanced" by (simp add: opt_prop_eq)
  from assms(2) e ne obtain objects ho s1 people hp s2 ocr hx where
    g1: "get_prop r ''objects'' = Some objects" and h1: "longer_than ns sgt objects 0 = Some ho" and
    s1: "(if ho then do {
           xs \<leftarrow> as_array objects;
           objectNames \<leftarrow> those (map (\<lambda>obj. get_prop obj ''object'') xs);
           first \<leftarrow> to_string ns (case objectNames of [] \<Rightarrow> JUndef | n # _ \<Rightarrow> n);
           Some ([''What do you see in this image?'', ''Can you describe the main subject?''] @
                 [''Tell me more about the '' @ first @ '' in the image''] @
                 (if length objectNames > 1 then
                    [''What's the relationship between the objects?''] else []))
         } else Some [''What do you see in this image?'', ''Can you describe the main subject?'']) = Some s1" and
    g2: "get_prop r ''people'' = Some people" and h2: "longer_than ns sgt people 0 = Some hp" and
    s2: "(if hp then do {
           more \<leftarrow> longer_than ns sgt people 1;
           Some (s1 @ [''What can you tell me about the people in the image?''] @
                 (if more then [''How many people are in the image and where are they?'']
                  else []))
         } else Some s1) = Some s2" and
    g3: "get_prop r ''text'' = Some ocr" and h3: "longer_than ns sgt ocr 0 = Some hx" and
    l: "l = take 6 ((if hx then
           s2 @ [''What does the text in the image say?'',
                          ''Can you explain the meaning of the text?'']
         else s2) @
         [''What are the dominant colors?'', ''How would you describe the composition?'',
          ''What's the setting or location?'', ''What might be happening in this scene?''])"
    by (auto simp: generateQuestionSuggestions_def bind_eq_Some_conv)
  have f: "opt_prop r ''objects'' = objects" "opt_prop r ''people'' = people" "opt_prop r ''text'' = ocr"
    using g1 g2 g3 by (simp_all add: opt_prop_eq)
  have no: "non_empty ns sgt r ''objects'' = ho" "non_empty ns sgt r ''people'' = hp"
    "non_empty ns sgt r ''text'' = hx"
    using h1 h2 h3 by (auto simp: non_empty_def f)
  from s1 obtain n where s1': "s1 = [''What do you see in this image?'', ''Can you describe the main subject?''] @
      (if ho then [object_question n] @
         (if several ns sgt r ''objects'' then [''What's the relationship between the objects?''] else [])
       else [])"
  proof (cases ho)
    case False
    with s1 that show thesis by simp
  next
    case True
    with s1 obtain xs names first where
      a: "as_array objects = Some xs" "those (map (\<lambda>obj. get_prop obj ''object'') xs) = Some names" and
      b: "s1 = [''What do you see in this image?'', ''Can you describe the main subject?''] @
                 [''Tell me more about the '' @ first @ '' in the image''] @
                 (if length names > 1 then
                    [''What's the relationship between the objects?''] else [])"
      by (auto simp: bind_eq_Some_conv)
    from a(1) have o: "objects = JArr xs" by (cases objects) simp_all
    have len: "length names = length xs"
      using a(2) by (induction xs arbitrary: names) (auto split: option.splits)
    have "several ns sgt r ''objects'' = (length names > 1)"
      using True h1 by (simp add: several_def non_empty_def f o longer_than_array len)
    with b True that show thesis by (simp add: object_question_def object_prefix_def object_suffix_def)
  qed
  from s2 have s2': "s2 = s1 @
      (if hp then [''What can you tell me about the people in the image?''] @
         (if several ns sgt r ''people'' then [''How many people are in the image and where are they?''] else [])
       else [])"
    using h2 by (auto simp: bind_eq_Some_conv several_def non_empty_def f split: if_splits)
  show ?thesis
    by (rule exI [of _ n]) (simp add: standard_list_def l s1' s2' no)
qed

text \<open>
  C5 (as amended). Without the enhanced flag, a returned suggestion list has at most six
  entries and contains the two opening questions; it contains an object-specific question
  iff \<open>objects\<close> is non-empty and a people question iff \<open>people\<close> is non-empty; it
  contains a text question iff \<open>text\<close> is non-empty and not both \<open>objects\<close> and
  \<open>people\<close> have several entries.
\<close>

theorem suggestions_from_fields:
  assumes "\<not> truthy (opt_prop r ''enhanced'')"
    and "generateQuestionSuggestions ns sgt r = Some l"
  shows "set basic_questions \<subseteq> set l \<and> length l \<le> 6 \<and>
     (has_object_question l \<longleftrightarrow> non_empty ns sgt r ''objects'') \<and>
     (has_people_question l \<longleftrightarrow> non_empty ns sgt r ''people'') \<and>
     (has_text_question l \<longleftrightarrow>
        non_empty ns sgt r ''text'' \<and>
        \<not> (several ns sgt r ''objects'' \<and> several ns sgt r ''people''))"
proof -
  from suggestions_shape [OF assms] obtain n where l: "l = standard_list ns sgt r n"
    by blast
  have sv: "several ns sgt r ''objects'' \<Longrightarrow> non_empty ns sgt r ''objects''"
    "several ns sgt r ''people'' \<Longrightarrow> non_empty ns sgt r ''people''"
    by (simp_all add: several_def)
  note facts = has_object_question_def has_people_question_def has_text_question_def
    object_question_is fixed_not_object object_not_fixed relationship_question_def
    is_object_question_def [of "''What's the relationship between the objects?''"]
  show ?thesis
    using sv unfolding l standard_list_def
    by (cases "non_empty ns sgt r ''objects''"; cases "several ns sgt r ''objects''";
        cases "non_empty ns sgt r ''people''"; cases "several ns sgt r ''people''";
        cases "non_empty ns sgt r ''text''")
       (simp_all add: facts basic_questions_def people_questions_def text_questions_def)
qed


theorem suggestions_from_fields_witness:
  "\<not> truthy (opt_prop text_only_results ''enhanced'') \<and>
   generateQuestionSuggestions number_text never_greater text_only_results =
     Some text_only_suggestions \<and>
   set basic_questions \<subseteq> set text_only_suggestions \<and>
   length text_only_suggestions \<le> 6 \<and>
   \<not> has_object_question text_only_suggestions \<and>
   \<not> has_people_question text_only_suggestions \<and>
   has_text_question text_only_suggestions"
proof -
  have h1: "\<not> truthy (opt_prop text_only_results ''enhanced'')"
    by code_simp
  have h2: "generateQuestionSuggestions number_text never_greater text_only_results =
     Some text_only_suggestions"
    by code_simp
  have n: "\<not> non_empty number_text never_greater text_only_results ''objects''"
    "\<not> non_empty number_text never_greater text_only_results ''people''"
    "non_empty number_text never_greater text_only_results ''text''"
    "\<not> several number_text never_greater text_only_results ''objects''"
    by code_simp+
  from suggestions_from_fields [OF h1 h2] h1 h2 n show ?thesis by simp
qed

text \<open>
  With two objects and two people the six entries are used up before the text questions:
  \<open>text\<close> is non-empty, yet the list has no text question.
\<close>

theorem suggestions_text_cut:
  "\<not> truthy (opt_prop crowded_results ''enhanced'') \<and>
   non_empty number_text never_greater crowded_results ''text'' \<and>
   generateQuestionSuggestions number_text never_greater crowded_results =
     Some crowded_suggestions \<and>
   \<not> has_text_question crowded_suggestions"
  by code_simp

section \<open>Properties of the chat handlers\<close>

lemma chat_suggestions_calls: "calls (chat_suggestions s ns sgt now b) = []"
  by (simp add: chat_suggestions_def Let_def)

lemma chat_suggestions_state: "state (chat_suggestions s ns sgt now b) = s"
  by (simp add: chat_suggestions_def Let_def)

lemma suggestions_of_error: "suggestions_of (error_response c e m) = JUndef"
  by (simp add: suggestions_of_def error_response_def json_response_def opt_prop_def own_def)

lemma suggestions_of_ok:
  "suggestions_of (json_response 200 [(''suggestions'', v), (''timestamp'', t)]) = v"
  by (simp add: suggestions_of_def json_response_def opt_prop_def own_def)

text \<open>
  What the handler answers, apart from the timestamp, as a function of the
  \<open>analysisResults\<close> of the request alone.
\<close>

lemma chat_suggestions_reply:
  "suggestions_of (reply (chat_suggestions s ns sgt now b)) =
     (case get_prop b ''analysisResults'' of
        None \<Rightarrow> JUndef
      | Some a \<Rightarrow>
          if \<not> truthy a then JUndef
          else (case generateQuestionSuggestions ns sgt a of
                  None \<Rightarrow> JUndef
                | Some l \<Rightarrow> JArr (map JStr l)))"
  by (simp add: chat_suggestions_def Let_def suggestions_of_error suggestions_of_ok
      split: option.splits)

lemma chat_suggestions_status:
  "status (reply (chat_suggestions s ns sgt now b)) =
     (case get_prop b ''analysisResults'' of
        None \<Rightarrow> 500
      | Some a \<Rightarrow>
          if \<not> truthy a then 400
          else (case generateQuestionSuggestions ns sgt a of None \<Rightarrow> 500 | Some l \<Rightarrow> 200))"
  by (simp add: chat_suggestions_def Let_def error_response_def json_response_def
      split: option.splits)

text \<open>
  C6. Two requests with equal \<open>analysisResults\<close> get the same suggestion list and the same
  status, whatever the server state and the clock; and the handler calls no service.
  \<open>generateQuestionSuggestions\<close>, which the handler runs, has both the standard and the
  enhanced branch.
\<close>

theorem suggestions_deterministic_local:
  assumes "get_prop ba ''analysisResults'' = get_prop bb ''analysisResults''"
  shows "suggestions_of (reply (chat_suggestions sa ns sgt ta ba)) =
           suggestions_of (reply (chat_suggestions sb ns sgt tb bb)) \<and>
         status (reply (chat_suggestions sa ns sgt ta ba)) =
           status (reply (chat_suggestions sb ns sgt tb bb)) \<and>
         calls (chat_suggestions sa ns sgt ta ba) = [] \<and>
         calls (chat_suggestions sb ns sgt tb bb) = []"
  using assms
  by (simp add: chat_suggestions_reply chat_suggestions_status chat_suggestions_calls)

theorem suggestions_deterministic_local_witness:
  "get_prop suggestions_request ''analysisResults'' =
     get_prop suggestions_request_extra ''analysisResults'' \<and>
   suggestions_of (reply (chat_suggestions configured number_text never_greater ''12:00''
       suggestions_request)) = JArr (map JStr text_only_suggestions) \<and>
   suggestions_of (reply (chat_suggestions unconfigured number_text never_greater ''13:00''
       suggestions_request_extra)) = JArr (map JStr text_only_suggestions)"
proof -
  have h: "get_prop suggestions_request ''analysisResults'' =
     get_prop suggestions_request_extra ''analysisResults''"
    by (simp add: suggestions_request_def suggestions_request_extra_def own_def)
  have v: "suggestions_of (reply (chat_suggestions configured number_text never_greater
       ''12:00'' suggestions_request)) = JArr (map JStr text_only_suggestions)"
    by code_simp
  note t = suggestions_deterministic_local
      [where ba = suggestions_request and bb = suggestions_request_extra and
        sa = configured and sb = unconfigured and ns = number_text and sgt = never_greater and
        ta = "''12:00''" and tb = "''13:00''", OF h]
  from t have e: "suggestions_of (reply (chat_suggestions configured number_text never_greater
       ''12:00'' suggestions_request)) =
     suggestions_of (reply (chat_suggestions unconfigured number_text never_greater ''13:00''
       suggestions_request_extra))"
    by (rule conjunct1)
  have w: "suggestions_of (reply (chat_suggestions unconfigured number_text never_greater
       ''13:00'' suggestions_request_extra)) = JArr (map JStr text_only_suggestions)"
    by (rule trans [OF e [symmetric] v])
  from h v w show ?thesis by (intro conjI)
qed

lemma chat_analyze_state: "state (chat_analyze s ns sgt now r b) = s"
  by (simp add: chat_analyze_def split: option.splits sum.splits)

lemma chat_analyze_sent:
  "sent_messages (calls (chat_analyze s ns sgt now r b)) =
     (case chat_prepare s ns sgt b of Some (Inr messages) \<Rightarrow> [messages] | _ \<Rightarrow> [])"
  by (simp add: chat_analyze_def split: option.splits sum.splits)

lemma chat_prepare_body:
  assumes "get_prop b1 ''question'' = get_prop b2 ''question''"
    and "get_prop b1 ''analysisResults'' = get_prop b2 ''analysisResults''"
    and "get_prop b1 ''conversationHistory'' = get_prop b2 ''conversationHistory''"
  shows "chat_prepare s ns sgt b1 = chat_prepare s ns sgt b2"
  by (simp add: chat_prepare_def assms)

lemma chat_prepare_without_client:
  assumes "\<not> openai_client s"
  shows "chat_prepare s ns sgt b \<noteq> Some (Inr messages)"
  using assms
  by (auto simp: chat_prepare_def bind_eq_Some_conv split: if_splits)

lemma chat_prepare_with_client:
  assumes "openai_client s1" and "openai_client s2"
  shows "chat_prepare s1 ns sgt b = chat_prepare s2 ns sgt b"
  using assms by (simp add: chat_prepare_def cong: if_cong)

lemma chat_prepare_server:
  assumes "chat_prepare s1 ns sgt b = Some (Inr m1)"
    and "chat_prepare s2 ns sgt b = Some (Inr m2)"
  shows "m1 = m2"
proof -
  from assms have "openai_client s1" "openai_client s2"
    using chat_prepare_without_client by blast+
  then have "chat_prepare s1 ns sgt b = chat_prepare s2 ns sgt b"
    by (rule chat_prepare_with_client)
  with assms show ?thesis by simp
qed

text \<open>
  C8. Both chat handlers hand the server state back as they got it. The messages that
  \<open>/api/chat/analyze\<close> sends to OpenAI are the same for any two requests that agree on
  \<open>question\<close>, \<open>analysisResults\<close> and \<open>conversationHistory\<close>, whatever the server state,
  the clock and the answers of OpenAI in the two runs.
\<close>

theorem chat_handlers_stateless:
  assumes "get_prop ba ''question'' = get_prop bb ''question''"
    and "get_prop ba ''analysisResults'' = get_prop bb ''analysisResults''"
    and "get_prop ba ''conversationHistory'' = get_prop bb ''conversationHistory''"
  shows "state (chat_analyze sa ns sgt ta ra ba) = sa \<and>
         state (chat_suggestions sa ns sgt ta ba) = sa \<and>
         (\<forall>ma \<in> set (sent_messages (calls (chat_analyze sa ns sgt ta ra ba))).
          \<forall>mb \<in> set (sent_messages (calls (chat_analyze sb ns sgt tb rb bb))). ma = mb) \<and>
         (openai_client sa = openai_client sb \<longrightarrow>
            sent_messages (calls (chat_analyze sa ns sgt ta ra ba)) =
            sent_messages (calls (chat_analyze sb ns sgt tb rb bb)))"
proof -
  have body: "chat_prepare s ns sgt ba = chat_prepare s ns sgt bb" for s
    using assms by (rule chat_prepare_body)
  have same: "ma = mb"
    if "chat_prepare sa ns sgt ba = Some (Inr ma)" "chat_prepare sb ns sgt bb = Some (Inr mb)"
    for ma mb
    using that chat_prepare_server [of sa ns sgt bb ma sb mb] by (simp add: body)
  have a: "\<forall>ma \<in> set (sent_messages (calls (chat_analyze sa ns sgt ta ra ba))).
          \<forall>mb \<in> set (sent_messages (calls (chat_analyze sb ns sgt tb rb bb))). ma = mb"
    using same by (auto simp: chat_analyze_sent split: option.splits sum.splits)
  have b: "sent_messages (calls (chat_analyze sa ns sgt ta ra ba)) =
            sent_messages (calls (chat_analyze sb ns sgt tb rb bb))"
    if "openai_client sa = openai_client sb"
  proof (cases "openai_client sa")
    case True
    with that have "chat_prepare sa ns sgt ba = chat_prepare sb ns sgt bb"
      using chat_prepare_with_client [of sa sb ns sgt ba] by (simp add: body)
    then show ?thesis by (simp add: chat_analyze_sent)
  next
    case False
    with that have "\<not> openai_client sb" by simp
    with False show ?thesis
      using chat_prepare_without_client [of sa ns sgt ba]
        chat_prepare_without_client [of sb ns sgt bb]
      by (auto simp: chat_analyze_sent split: option.splits sum.splits)
  qed
  from a b show ?thesis
    by (simp add: chat_analyze_state chat_suggestions_state)
qed

theorem chat_handlers_stateless_witness:
  "sent_messages (calls (chat_analyze configured number_text never_greater ''12:00''
      openai_answer chat_request)) = [chat_request_messages] \<and>
   state (chat_analyze configured number_text never_greater ''12:00''
      openai_answer chat_request) = configured \<and>
   sent_messages (calls (chat_analyze openai_only number_text
      never_greater ''13:00'' (Thrown plain_error) chat_request)) = [chat_request_messages]"
proof -
  have v: "sent_messages (calls (chat_analyze configured number_text never_greater ''12:00''
      openai_answer chat_request)) = [chat_request_messages]"
    by code_simp
  have c: "openai_client configured = openai_client openai_only"
    by (simp add: configured_def openai_only_def)
  note t = chat_handlers_stateless
      [where ba = chat_request and bb = chat_request and sa = configured and
        sb = openai_only and ns = number_text and sgt = never_greater and
        ta = "''12:00''" and tb = "''13:00''" and ra = openai_answer and
        rb = "Thrown plain_error", OF refl refl refl]
  from t have s: "state (chat_analyze configured number_text never_greater ''12:00''
      openai_answer chat_request) = configured"
    by (rule conjunct1)
  from t c have e: "sent_messages (calls (chat_analyze configured number_text never_greater
      ''12:00'' openai_answer chat_request)) =
    sent_messages (calls (chat_analyze openai_only number_text
      never_greater ''13:00'' (Thrown plain_error) chat_request))"
    by blast
  have w: "sent_messages (calls (chat_analyze openai_only number_text
      never_greater ''13:00'' (Thrown plain_error) chat_request)) = [chat_request_messages]"
    by (rule trans [OF e [symmetric] v])
  from v s w show ?thesis by (intro conjI)
qed

section \<open>Properties of the classic analysis route\<close>

lemma analysisResponse_fields:
  assumes "analysisResponse ns now u r = Some res"
  shows "opt_prop res ''success'' = JBool True" and "opt_prop res ''imageUrl'' = u"
  using assms
  by (auto simp: analysisResponse_def bind_eq_Some_conv opt_prop_def own_def)

lemma no_success_error_response: "opt_prop (body (error_response c e m)) ''success'' = JUndef"
  by (simp add: error_response_def json_response_def opt_prop_def own_def)

lemma no_success_failed: "opt_prop (body (analysis_failed dev m)) ''success'' = JUndef"
  by (simp add: analysis_failed_def json_response_def opt_prop_def own_def)

lemma no_success_rejected: "opt_prop (body (analysis_rejected dev c d)) ''success'' = JUndef"
  by (simp add: analysis_rejected_def json_response_def opt_prop_def own_def)

lemma upload_step_no_file: "upload_step s None n b = (JNull, [])"
  by (simp add: upload_step_def)

lemma vision_input_early:
  assumes "vision_input decode file rb = Some (Inl early)"
  shows "opt_prop (body early) ''success'' = JUndef"
  using assms
  by (auto simp: vision_input_def bind_eq_Some_conv no_success_error_response
      split: option.splits if_splits)

text \<open>The handler without a multipart file: a successful response has no image URL.\<close>

lemma vision_analyze_no_file:
  assumes "opt_prop (body (reply (vision_analyze s ns decode now tm v b None rb)))
             ''success'' = JBool True"
  shows "opt_prop (body (reply (vision_analyze s ns decode now tm v b None rb)))
           ''imageUrl'' = JNull \<and>
         blob_calls (calls (vision_analyze s ns decode now tm v b None rb)) = []"
proof (cases "vision_input decode None rb")
  case None
  with assms show ?thesis by (simp add: vision_analyze_def Let_def no_success_failed)
next
  case (Some i)
  show ?thesis
  proof (cases i)
    case (Inl early)
    with Some assms vision_input_early [of decode None rb early] show ?thesis
      by (simp add: vision_analyze_def Let_def)
  next
    case (Inr x)
    obtain n features language where x: "x = (n, features, language)" by (cases x)
    show ?thesis
    proof (cases v)
      case VisionFailure
      with assms Some Inr x show ?thesis
        by (simp add: vision_analyze_def Let_def no_success_failed no_success_error_response
            split: if_splits)
    next
      case (VisionHttpError code dat)
      with assms Some Inr x show ?thesis
        by (simp add: vision_analyze_def Let_def no_success_rejected no_success_error_response
            split: if_splits)
    next
      case (VisionData result)
      show ?thesis
      proof (cases "analysisResponse ns now JNull result")
        case None
        with assms Some Inr x VisionData show ?thesis
          by (simp add: vision_analyze_def Let_def no_success_failed no_success_error_response
              upload_step_no_file split: if_splits)
      next
        case (Some res)
        note r = analysisResponse_fields [OF Some]
        from assms \<open>vision_input decode None rb = Some i\<close> Inr x VisionData Some r
        show ?thesis
          by (simp add: vision_analyze_def Let_def no_success_failed no_success_error_response
              upload_step_no_file blob_calls_def split: if_splits)
      qed
    qed
  qed
qed

text \<open>The handler on a request that passes every check and gets an answer it can read.\<close>

lemma vision_analyze_ok:
  assumes "vision_input decode file rb = Some (Inr (n, features, language))"
    and "0 < n" and "n \<le> 20 * 1024 * 1024"
    and "env s ''VISION_ENDPOINT'' = Some (e # es)" and "env s ''VISION_API_KEY'' = Some (k # ks)"
    and "\<not> nullish result"
    and "analysisResponse ns now (fst (upload_step s file n b)) result = Some res"
  shows "vision_analyze s ns decode now tm (VisionData result) b file rb =
           \<lparr>reply = \<lparr>status = 200, body = res\<rparr>,
            calls = VisionAnalyze (intercalate '','' features) language n #
                    snd (upload_step s file n b),
            state = s\<rparr>"
  using assms by (cases "upload_step s file n b") (simp add: vision_analyze_def Let_def)

lemma configured_env:
  "env configured ''VISION_ENDPOINT'' = Some ''https://vision.example''"
  "env configured ''VISION_API_KEY'' = Some ''key''"
  "blob_client configured"
  by (simp_all add: configured_def)

lemma vision_answer_read:
  "analysisResponse number_text ''12:00'' JNull vision_answer = Some classic_cat"
  "analysisResponse number_text ''12:00'' (JStr ''https://blob/x'') vision_answer \<noteq> None"
  "\<not> nullish vision_answer"
  by code_simp+

lemma classic_cat_fields:
  "opt_prop classic_cat ''success'' = JBool True"
  "opt_prop classic_cat ''imageUrl'' = JNull"
  by code_simp+

lemma base64_request_run:
  "post_vision_analyze configured number_text decode_sample ''12:00'' ''tm''
     (VisionData vision_answer) (Returned ''https://blob/x'') base64_request =
   \<lparr>reply = \<lparr>status = 200, body = classic_cat\<rparr>,
    calls = [VisionAnalyze ''Caption,Objects,Tags,People'' (JStr ''en'') 1000],
    state = configured\<rparr>"
proof -
  have c: "conditionalUpload base64_request = Accepted None"
    by (simp add: conditionalUpload_def base64_request_def)
  have i: "vision_input decode_sample None (req_body base64_request) =
      Some (Inr (1000, default_features, JStr ''en''))"
    by (simp add: vision_input_def base64_request_def decode_sample_def request_features_def
        request_language_def own_def js_or_def)
  have r: "analysisResponse number_text ''12:00''
      (fst (upload_step configured None 1000 (Returned ''https://blob/x''))) vision_answer =
      Some classic_cat"
    by (simp add: upload_step_no_file vision_answer_read)
  from vision_analyze_ok [OF i _ _ configured_env(1,2) vision_answer_read(3) r, of "''tm''"]
  show ?thesis
    by (simp add: post_vision_analyze_def c upload_step_no_file default_features_def)
qed

lemma bogus_request_run:
  "post_vision_analyze configured number_text decode_sample ''12:00'' ''tm''
     (VisionData vision_answer) (Returned ''https://blob/x'') bogus_request =
   \<lparr>reply = \<lparr>status = 200, body = classic_cat\<rparr>,
    calls = [VisionAnalyze ''Bogus'' (JStr ''en'') 1000],
    state = configured\<rparr>"
proof -
  have c: "conditionalUpload bogus_request = Accepted None"
    by (simp add: conditionalUpload_def bogus_request_def)
  have i: "vision_input decode_sample None (req_body bogus_request) =
      Some (Inr (1000, [''Bogus''], JStr ''en''))"
    by (simp add: vision_input_def bogus_request_def decode_sample_def request_features_def
        request_language_def own_def js_or_def)
  have r: "analysisResponse number_text ''12:00''
      (fst (upload_step configured None 1000 (Returned ''https://blob/x''))) vision_answer =
      Some classic_cat"
    by (simp add: upload_step_no_file vision_answer_read)
  from vision_analyze_ok [OF i _ _ configured_env(1,2) vision_answer_read(3) r, of "''tm''"]
  show ?thesis
    by (simp add: post_vision_analyze_def c upload_step_no_file)
qed

lemma tiff_request_run:
  "\<exists>res. post_vision_analyze configured number_text decode_sample ''12:00'' ''tm''
     (VisionData vision_answer) (Returned ''https://blob/x'')
     (multipart_request (photo ''image/tiff'' 100)) =
   \<lparr>reply = \<lparr>status = 200, body = res\<rparr>,
    calls = [VisionAnalyze ''Caption,Objects,Tags,People'' (JStr ''en'') 100,
             BlobUpload 100 ''photo.jpg''],
    state = configured\<rparr>"
proof -
  let ?f = "photo ''image/tiff'' 100"
  have c: "conditionalUpload (multipart_request ?f) = Accepted (Some ?f)"
    by (simp add: conditionalUpload_def multipart_request_def upload_single_def photo_def
        fileFilter_def fileSize_def)
  have i: "vision_input decode_sample (Some ?f) (req_body (multipart_request ?f)) =
      Some (Inr (100, default_features, JStr ''en''))"
    by (simp add: vision_input_def multipart_request_def photo_def request_features_def
        request_language_def own_def js_or_def)
  have u: "upload_step configured (Some ?f) 100 (Returned ''https://blob/x'') =
      (JStr ''https://blob/x'', [BlobUpload 100 ''photo.jpg''])"
    by (simp add: upload_step_def configured_env photo_def)
  from vision_answer_read(2) obtain res where
    r: "analysisResponse number_text ''12:00''
      (fst (upload_step configured (Some ?f) 100 (Returned ''https://blob/x''))) vision_answer =
      Some res"
    by (auto simp: u)
  from vision_analyze_ok [OF i _ _ configured_env(1,2) vision_answer_read(3) r, of "''tm''"]
  show ?thesis
    by (simp add: post_vision_analyze_def c u default_features_def)
qed

text \<open>
  C9. A request to POST /api/vision/analyze that comes without a multipart file and is
  answered with success has \<open>imageUrl\<close> \<open>null\<close> in its response, and nothing is uploaded to
  the blob storage for it.
\<close>

theorem base64_image_url_null:
  assumes "conditionalUpload req = Accepted None"
    and "opt_prop (body (reply (post_vision_analyze s ns decode now tm v b req))) ''success'' =
           JBool True"
  shows "opt_prop (body (reply (post_vision_analyze s ns decode now tm v b req))) ''imageUrl'' =
           JNull \<and>
         blob_calls (calls (post_vision_analyze s ns decode now tm v b req)) = []"
proof -
  from assms(1) have "post_vision_analyze s ns decode now tm v b req =
      vision_analyze s ns decode now tm v b None (req_body req)"
    by (simp add: post_vision_analyze_def)
  with assms(2) vision_analyze_no_file [of s ns decode now tm v b "req_body req"]
  show ?thesis by simp
qed

theorem base64_image_url_null_witness:
  "conditionalUpload base64_request = Accepted None \<and>
   status (reply (post_vision_analyze configured number_text decode_sample ''12:00'' ''tm''
     (VisionData vision_answer) (Returned ''https://blob/x'') base64_request)) = 200 \<and>
   opt_prop (body (reply (post_vision_analyze configured number_text decode_sample ''12:00''
     ''tm'' (VisionData vision_answer) (Returned ''https://blob/x'') base64_request)))
     ''success'' = JBool True \<and>
   opt_prop (body (reply (post_vision_analyze configured number_text decode_sample ''12:00''
     ''tm'' (VisionData vision_answer) (Returned ''https://blob/x'') base64_request)))
     ''imageUrl'' = JNull"
proof -
  have h1: "conditionalUpload base64_request = Accepted None"
    by (simp add: conditionalUpload_def base64_request_def)
  have h2: "opt_prop (body (reply (post_vision_analyze configured number_text decode_sample
     ''12:00'' ''tm'' (VisionData vision_answer) (Returned ''https://blob/x'') base64_request)))
     ''success'' = JBool True"
    by (simp add: base64_request_run classic_cat_fields)
  have h3: "status (reply (post_vision_analyze configured number_text decode_sample ''12:00''
     ''tm'' (VisionData vision_answer) (Returned ''https://blob/x'') base64_request)) = 200"
    by (simp add: base64_request_run)
  from base64_image_url_null [OF h1 h2] have h4:
    "opt_prop (body (reply (post_vision_analyze configured number_text decode_sample ''12:00''
     ''tm'' (VisionData vision_answer) (Returned ''https://blob/x'') base64_request)))
     ''imageUrl'' = JNull"
    by (rule conjunct1)
  from h1 h3 h2 h4 show ?thesis by (intro conjI)
qed

lemma refused_outcome:
  assumes "conditionalUpload req = Refused err"
  shows "status (reply (post_vision_analyze s ns decode now tm v b req)) =
           ei_status (network_error err (azure_error err (specific_error err)))"
    and "body_error (reply (post_vision_analyze s ns decode now tm v b req)) =
           JStr (ei_message (network_error err (azure_error err (specific_error err))))"
    and "calls (post_vision_analyze s ns decode now tm v b req) = []"
  using assms
  by (simp_all add: post_vision_analyze_def errorHandler_status errorHandler_body_error)

lemma filter_error_info:
  "network_error filter_error (azure_error filter_error (specific_error filter_error)) =
     mk_error 500 ''Internal server error''"
  by (simp add: filter_error_def network_error_def azure_error_def specific_error_def)

lemma file_size_error_info:
  "network_error (multer_error ''LIMIT_FILE_SIZE'' m)
     (azure_error (multer_error ''LIMIT_FILE_SIZE'' m)
        (specific_error (multer_error ''LIMIT_FILE_SIZE'' m))) =
     mk_error 413 ''File too large''"
  by (simp add: multer_error_def network_error_def azure_error_def specific_error_def)

text \<open>
  C2 (as amended). A multipart request to POST /api/vision/analyze whose file, in the
  field \<open>image\<close>, has a mime type that does not start with \<open>image/\<close> is answered with
  status 500; one whose file has such a mime type and more than 10MB is answered with
  status 413 and the error \<open>File too large\<close>. Neither reaches the handler: no call to
  Azure Vision is made.
\<close>

theorem upload_refused:
  assumes "includes_str (content_type req) ''multipart/form-data''"
    and "file_part req = Some f"
    and "fieldname f = ''image''"
  shows "(\<not> starts_with (mimetype f) ''image/'' \<longrightarrow>
            status (reply (post_vision_analyze s ns decode now tm v b req)) = 500 \<and>
            calls (post_vision_analyze s ns decode now tm v b req) = []) \<and>
         (starts_with (mimetype f) ''image/'' \<and> file_size f > 10 * 1024 * 1024 \<longrightarrow>
            status (reply (post_vision_analyze s ns decode now tm v b req)) = 413 \<and>
            body_error (reply (post_vision_analyze s ns decode now tm v b req)) =
              JStr ''File too large'' \<and>
            calls (post_vision_analyze s ns decode now tm v b req) = [])"
proof (intro conjI impI)
  assume "\<not> starts_with (mimetype f) ''image/''"
  with assms have r: "conditionalUpload req = Refused filter_error"
    by (simp add: conditionalUpload_def upload_single_def fileFilter_def)
  from refused_outcome [OF r]
  show "status (reply (post_vision_analyze s ns decode now tm v b req)) = 500"
    and "calls (post_vision_analyze s ns decode now tm v b req) = []"
    by (simp_all add: filter_error_info mk_error_def)
next
  assume "starts_with (mimetype f) ''image/'' \<and> file_size f > 10 * 1024 * 1024"
  with assms have r: "conditionalUpload req =
      Refused (multer_error ''LIMIT_FILE_SIZE'' ''File too large'')"
    by (simp add: conditionalUpload_def upload_single_def fileFilter_def fileSize_def)
  from refused_outcome [OF r]
  show "status (reply (post_vision_analyze s ns decode now tm v b req)) = 413"
    and "body_error (reply (post_vision_analyze s ns decode now tm v b req)) =
              JStr ''File too large''"
    and "calls (post_vision_analyze s ns decode now tm v b req) = []"
    by (simp_all add: file_size_error_info mk_error_def)
qed

theorem upload_refused_witness:
  "status (reply (post_vision_analyze configured number_text decode_sample ''12:00'' ''tm''
     (VisionData vision_answer) (Returned ''https://blob/x'')
     (multipart_request (photo ''text/plain'' 100)))) = 500 \<and>
   status (reply (post_vision_analyze configured number_text decode_sample ''12:00'' ''tm''
     (VisionData vision_answer) (Returned ''https://blob/x'')
     (multipart_request (photo ''image/png'' 11000000)))) = 413 \<and>
   calls (post_vision_analyze configured number_text decode_sample ''12:00'' ''tm''
     (VisionData vision_answer) (Returned ''https://blob/x'')
     (multipart_request (photo ''image/png'' 11000000))) = []"
proof -
  have c: "includes_str (content_type (multipart_request f)) ''multipart/form-data''"
    "file_part (multipart_request f) = Some f" for f
    by (simp_all add: multipart_request_def)
  have n: "fieldname (photo m k) = ''image''" "mimetype (photo m k) = m"
    "file_size (photo m k) = k" for m k
    by (simp_all add: photo_def)
  have a: "\<not> starts_with (mimetype (photo ''text/plain'' 100)) ''image/''"
    by (simp add: n)
  have b: "starts_with (mimetype (photo ''image/png'' 11000000)) ''image/'' \<and>
      file_size (photo ''image/png'' 11000000) > 10 * 1024 * 1024"
    by (simp add: n)
  note t1 = upload_refused [where req = "multipart_request (photo ''text/plain'' 100)" and
      f = "photo ''text/plain'' 100" and
      s = configured and ns = number_text and decode = decode_sample and now = "''12:00''" and
      tm = "''tm''" and v = "VisionData vision_answer" and b = "Returned ''https://blob/x''",
      OF c n(1)]
  note t2 = upload_refused [where req = "multipart_request (photo ''image/png'' 11000000)" and
      f = "photo ''image/png'' 11000000" and
      s = configured and ns = number_text and decode = decode_sample and now = "''12:00''" and
      tm = "''tm''" and v = "VisionData vision_answer" and b = "Returned ''https://blob/x''",
      OF c n(1)]
  from t1 [THEN conjunct1, rule_format, OF a] t2 [THEN conjunct2, rule_format, OF b]
  show ?thesis by (intro conjI) (elim conjE, assumption)+
qed

text \<open>
  The route does not check the list of features, and of the mime type only the prefix: a
  request for the feature \<open>Bogus\<close> and an upload of type \<open>image/tiff\<close> both go to Azure
  Vision, and with its answer they are answered with status 200.
\<close>

theorem unknown_feature_reaches_vision:
  "status (reply (post_vision_analyze configured number_text decode_sample ''12:00'' ''tm''
     (VisionData vision_answer) (Returned ''https://blob/x'') bogus_request)) = 200 \<and>
   vision_calls (calls (post_vision_analyze configured number_text decode_sample ''12:00''
     ''tm'' (VisionData vision_answer) (Returned ''https://blob/x'') bogus_request)) =
     [VisionAnalyze ''Bogus'' (JStr ''en'') 1000] \<and>
   status (reply (post_vision_analyze configured number_text decode_sample ''12:00'' ''tm''
     (VisionData vision_answer) (Returned ''https://blob/x'')
     (multipart_request (photo ''image/tiff'' 100)))) = 200 \<and>
   vision_calls (calls (post_vision_analyze configured number_text decode_sample ''12:00''
     ''tm'' (VisionData vision_answer) (Returned ''https://blob/x'')
     (multipart_request (photo ''image/tiff'' 100)))) =
     [VisionAnalyze ''Caption,Objects,Tags,People'' (JStr ''en'') 100]"
proof -
  from tiff_request_run obtain res where t:
    "post_vision_analyze configured number_text decode_sample ''12:00'' ''tm''
     (VisionData vision_answer) (Returned ''https://blob/x'')
     (multipart_request (photo ''image/tiff'' 100)) =
   \<lparr>reply = \<lparr>status = 200, body = res\<rparr>,
    calls = [VisionAnalyze ''Caption,Objects,Tags,People'' (JStr ''en'') 100,
             BlobUpload 100 ''photo.jpg''],
    state = configured\<rparr>" ..
  show ?thesis
    unfolding t bogus_request_run by (simp add: vision_calls_def)
qed

section \<open>Properties of the enhanced analysis\<close>

lemma map_or_empty_elements:
  assumes "map_or_empty f v = Some ys" and "y \<in> set ys"
  shows "\<exists>x. y = f x"
  using assms by (auto simp: map_or_empty_def bind_eq_Some_conv split: if_splits)

lemma map_constant:
  assumes "\<forall>x \<in> set xs. f x = k"
  shows "map f xs = replicate (length xs) k"
  using assms by (induction xs) simp_all

lemma dominant_colors_array:
  assumes "dominant_colors v = Some d"
  shows "is_array d"
  using assms
  by (auto simp: dominant_colors_def is_array_def bind_eq_Some_conv split: if_splits)

text \<open>
  C1 (as amended). Whenever \<open>analyzeImageWithGPT4o\<close> returns, its result keeps the raw
  answer under \<open>analysis\<close> and carries, next to it, the fields of the legacy analysis
  results that the chat routes read: \<open>caption\<close> with \<open>text\<close> and \<open>confidence\<close>,
  \<open>description.captions\<close>, \<open>objects\<close> with entries of \<open>object\<close>, \<open>confidence\<close> and
  \<open>rectangle\<close>, \<open>tags\<close> with entries of \<open>name\<close> and \<open>confidence\<close>, \<open>text\<close> as an array
  and \<open>color.dominantColors\<close>.
\<close>

theorem enhanced_legacy_shape:
  assumes "analyzeImageWithGPT4o usage a = Some e"
  shows "obj_keys e =
           [''enhanced'', ''model'', ''analysis'', ''caption'', ''description'', ''objects'',
            ''tags'', ''text'', ''color'', ''sceneContext'', ''activities'',
            ''moodAtmosphere'', ''colorsComposition'', ''interestingDetails'', ''usage''] \<and>
         opt_prop e ''analysis'' = a \<and>
         obj_keys (opt_prop e ''caption'') = [''text'', ''confidence''] \<and>
         map obj_keys (elements (opt_prop (opt_prop e ''description'') ''captions'')) =
           [[''text'', ''confidence'']] \<and>
         is_array (opt_prop e ''objects'') \<and>
         (\<forall>obj \<in> set (elements (opt_prop e ''objects'')).
            obj_keys obj = [''object'', ''confidence'', ''rectangle''] \<and>
            obj_keys (opt_prop obj ''rectangle'') = [''x'', ''y'', ''w'', ''h'']) \<and>
         is_array (opt_prop e ''tags'') \<and>
         (\<forall>tag \<in> set (elements (opt_prop e ''tags'')).
            obj_keys tag = [''name'', ''confidence'']) \<and>
         is_array (opt_prop e ''text'') \<and>
         obj_keys (opt_prop e ''color'') = [''dominantColors''] \<and>
         is_array (opt_prop (opt_prop e ''color'') ''dominantColors'')"
proof -
  let ?fo = "\<lambda>obj. JObj
         [(''object'', obj), (''confidence'', JNum (85 / 100)),
          (''rectangle'', JObj [(''x'', JNum 0), (''y'', JNum 0),
                               (''w'', JNum 100), (''h'', JNum 100)])]"
  let ?ft = "\<lambda>obj. JObj [(''name'', obj), (''confidence'', JNum (85 / 100))]"
  let ?fa = "\<lambda>activity. JObj [(''name'', activity), (''confidence'', JNum (8 / 10))]"
  from assms obtain confidence mainDescription objs acts objects object_tags activity_tags
      textContent colorsComposition dominantColors sceneContext moodAtmosphere
      interestingDetails where
    o: "map_or_empty ?fo objs = Some objects" and
    t1: "map_or_empty ?ft objs = Some object_tags" and
    t2: "map_or_empty ?fa acts = Some activity_tags" and
    d: "dominant_colors colorsComposition = Some dominantColors" and
    e: "e = JObj
       [(''enhanced'', JBool True),
        (''model'', JStr ''gpt-4o''),
        (''analysis'', a),
        (''caption'', JObj [(''text'', mainDescription),
                           (''confidence'', js_or confidence (JNum (9 / 10)))]),
        (''description'', JObj [(''captions'', JArr [JObj
                           [(''text'', mainDescription),
                            (''confidence'', js_or confidence (JNum (9 / 10)))]])]),
        (''objects'', JArr objects),
        (''tags'', JArr (object_tags @ activity_tags)),
        (''text'', if truthy textContent then JArr [textContent] else JArr []),
        (''color'', JObj [(''dominantColors'', dominantColors)]),
        (''sceneContext'', sceneContext),
        (''activities'', js_or acts (JArr [])),
        (''moodAtmosphere'', moodAtmosphere),
        (''colorsComposition'', colorsComposition),
        (''interestingDetails'', js_or interestingDetails (JArr [])),
        (''usage'', usage)]"
    unfolding analyzeImageWithGPT4o_def bind_eq_Some_conv by auto
  have keys: "obj_keys e =
           [''enhanced'', ''model'', ''analysis'', ''caption'', ''description'', ''objects'',
            ''tags'', ''text'', ''color'', ''sceneContext'', ''activities'',
            ''moodAtmosphere'', ''colorsComposition'', ''interestingDetails'', ''usage'']"
    by (simp add: e obj_keys_def)
  have f: "opt_prop e ''analysis'' = a"
    "opt_prop e ''caption'' = JObj [(''text'', mainDescription),
                           (''confidence'', js_or confidence (JNum (9 / 10)))]"
    "opt_prop e ''description'' = JObj [(''captions'', JArr [JObj
                           [(''text'', mainDescription),
                            (''confidence'', js_or confidence (JNum (9 / 10)))]])]"
    "opt_prop e ''objects'' = JArr objects"
    "opt_prop e ''tags'' = JArr (object_tags @ activity_tags)"
    "opt_prop e ''text'' = (if truthy textContent then JArr [textContent] else JArr [])"
    "opt_prop e ''color'' = JObj [(''dominantColors'', dominantColors)]"
    by (simp_all add: e opt_prop_def own_def)
  have objs: "obj_keys obj = [''object'', ''confidence'', ''rectangle''] \<and>
            obj_keys (opt_prop obj ''rectangle'') = [''x'', ''y'', ''w'', ''h'']"
    if "obj \<in> set objects" for obj
  proof -
    from map_or_empty_elements [OF o that] obtain x where "obj = ?fo x" ..
    then show ?thesis by (simp add: obj_keys_def opt_prop_def own_def)
  qed
  have tags: "obj_keys tag = [''name'', ''confidence'']"
    if "tag \<in> set (object_tags @ activity_tags)" for tag
  proof -
    from that consider "tag \<in> set object_tags" | "tag \<in> set activity_tags" by auto
    then show ?thesis
    proof cases
      case 1
      from map_or_empty_elements [OF t1 1] obtain x where "tag = ?ft x" ..
      then show ?thesis by (simp add: obj_keys_def)
    next
      case 2
      from map_or_empty_elements [OF t2 2] obtain x where "tag = ?fa x" ..
      then show ?thesis by (simp add: obj_keys_def)
    qed
  qed
  have caps: "map obj_keys (elements (opt_prop (opt_prop e ''description'') ''captions'')) =
           [[''text'', ''confidence'']]"
    unfolding f by (simp add: opt_prop_def own_def elements_def obj_keys_def)
  have col: "is_array (opt_prop (opt_prop e ''color'') ''dominantColors'')"
    using dominant_colors_array [OF d] unfolding f by (simp add: opt_prop_def own_def)
  show ?thesis
    using keys caps col objs tags
    by (simp add: f obj_keys_def elements_def is_array_def)
qed

theorem enhanced_legacy_shape_witness:
  "analyzeImageWithGPT4o JUndef model_answer = Some enhanced_cat \<and>
   opt_prop enhanced_cat ''analysis'' = model_answer \<and>
   map obj_keys (elements (opt_prop enhanced_cat ''objects'')) =
     [[''object'', ''confidence'', ''rectangle''], [''object'', ''confidence'', ''rectangle'']] \<and>
   map obj_keys (elements (opt_prop enhanced_cat ''tags'')) =
     [[''name'', ''confidence''], [''name'', ''confidence''], [''name'', ''confidence'']]"
proof -
  have h: "analyzeImageWithGPT4o JUndef model_answer = Some enhanced_cat"
    by code_simp
  have n: "length (elements (opt_prop enhanced_cat ''objects'')) = Suc (Suc 0)"
    "length (elements (opt_prop enhanced_cat ''tags'')) = Suc (Suc (Suc 0))"
    by code_simp+
  note t = enhanced_legacy_shape [OF h]
  from t have a: "opt_prop enhanced_cat ''analysis'' = model_answer" by blast
  from t have "\<forall>obj \<in> set (elements (opt_prop enhanced_cat ''objects'')).
      obj_keys obj = [''object'', ''confidence'', ''rectangle'']" by blast
  from map_constant [OF this] n(1)
  have o: "map obj_keys (elements (opt_prop enhanced_cat ''objects'')) =
     [[''object'', ''confidence'', ''rectangle''], [''object'', ''confidence'', ''rectangle'']]"
    by simp
  from t have "\<forall>tag \<in> set (elements (opt_prop enhanced_cat ''tags'')).
      obj_keys tag = [''name'', ''confidence'']" by blast
  from map_constant [OF this] n(2)
  have g: "map obj_keys (elements (opt_prop enhanced_cat ''tags'')) =
     [[''name'', ''confidence''], [''name'', ''confidence''], [''name'', ''confidence'']]"
    by simp
  from h a o g show ?thesis by (intro conjI)
qed

text \<open>
  The result has not the schema of the classic response. For an image of a cat as the
  two services may describe it, the classic response has fields that the enhanced result
  lacks (\<open>success\<close>, \<open>imageUrl\<close>, the \<open>name\<close> and \<open>boundingBox\<close> of an object, the
  caption as a string), whether one compares the responses as a whole, the classic
  \<open>analysis\<close> with the enhanced result, or the two \<open>analysis\<close> objects.
\<close>

theorem enhanced_not_classic_schema:
  "analysisResponse number_text ''12:00'' JNull vision_answer = Some classic_cat \<and>
   analyzeImageWithGPT4o JUndef model_answer = Some enhanced_cat \<and>
   \<not> has_shape classic_cat enhanced_cat \<and>
   \<not> has_shape (opt_prop classic_cat ''analysis'') enhanced_cat \<and>
   \<not> has_shape (opt_prop classic_cat ''analysis'') (opt_prop enhanced_cat ''analysis'')"
  by code_simp

section \<open>Properties of the translation routes\<close>


lemma field_Items_text: "field (Items xs) ''text'' = JUndef"
  by (simp add: field_def opt_prop_def)






lemma first_match_not_service:
  "first_match matches m p translation_routes \<noteq> Some LanguagesFromService"
  by (simp add: translation_routes_def)

lemma languages_handler_body:
  "languages_handler s = \<lparr>reply = \<lparr>status = 200, body = languages_body\<rparr>, calls = [], state = s\<rparr>"
  by (simp add: languages_handler_def languages_body_def json_response_def
      defaultTargetLanguage_def)

text \<open>
  C10. No request is routed to the handler that asks the Translator for its languages:
  the handler registered first for the same method and path takes every request that
  would match. A GET of \<open>/languages\<close> is answered from the table of 16 languages with
  \<open>autoDetectionSupported\<close> true, and the Translator is not called.
\<close>

theorem languages_from_table:
  "route_for matches m p \<noteq> Some LanguagesFromService \<and>
   (matches ''/languages'' p \<longrightarrow>
      translation_router matches detect batch s jm now tm rt rl GET p b =
        \<lparr>reply = \<lparr>status = 200, body = languages_body\<rparr>, calls = [], state = s\<rparr>) \<and>
   length (obj_keys (opt_prop languages_body ''supportedLanguages'')) = 16 \<and>
   opt_prop languages_body ''autoDetectionSupported'' = JBool True"
proof -
  have a: "route_for matches m p \<noteq> Some LanguagesFromService"
    by (simp add: route_for_def first_match_not_service)
  have b: "translation_router matches detect batch s jm now tm rt rl GET p b =
        \<lparr>reply = \<lparr>status = 200, body = languages_body\<rparr>, calls = [], state = s\<rparr>"
    if "matches ''/languages'' p"
  proof -
    from that have "route_for matches GET p = Some Languages"
      by (simp add: route_for_def translation_routes_def)
    then show ?thesis
      by (simp add: translation_router_def languages_handler_body)
  qed
  have c: "length (obj_keys (opt_prop languages_body ''supportedLanguages'')) = 16"
    "opt_prop languages_body ''autoDetectionSupported'' = JBool True"
    by (simp_all add: languages_body_def supportedLanguages_def opt_prop_def own_def
        obj_keys_def)
  from a b c show ?thesis by blast
qed

theorem languages_from_table_witness:
  "same_path ''/languages'' ''/languages'' \<and>
   translation_router same_path no_handler no_handler configured joi_message ''12:00'' ''tm''
     (Thrown plain_error) (Returned JNull) GET ''/languages'' (Fields []) =
   \<lparr>reply = \<lparr>status = 200, body = languages_body\<rparr>, calls = [], state = configured\<rparr>"
proof -
  have h: "same_path ''/languages'' ''/languages''"
    by (simp add: same_path_def)
  note t = languages_from_table [where matches = same_path and p = "''/languages''" and
      detect = no_handler and batch = no_handler and s = configured and jm = joi_message and
      now = "''12:00''" and tm = "''tm''" and rt = "Thrown plain_error" and
      rl = "Returned JNull" and b = "Fields []" and m = GET]
  from t h have "translation_router same_path no_handler no_handler configured joi_message
     ''12:00'' ''tm'' (Thrown plain_error) (Returned JNull) GET ''/languages'' (Fields []) =
   \<lparr>reply = \<lparr>status = 200, body = languages_body\<rparr>, calls = [], state = configured\<rparr>"
    by blast
  with h show ?thesis by (intro conjI)
qed

end
